theory Spec2Isabelle
  imports Main
begin

section \<open>Python values used by misnersplunktool.py\<close>

subsection \<open>Strings\<close>

text \<open>
  The texts of the Qt widgets are Python 2 \<^verbatim>\<open>unicode\<close> objects. A character is modelled
  by \<^typ>\<open>char\<close>, that is by a code point below 256; \<open>isspace\<close> lists the code points
  below 256 that \<^verbatim>\<open>unicode.strip()\<close> removes.
\<close>

definition isspace :: "char \<Rightarrow> bool" where
  "isspace c = (of_char c \<in> {9, 10, 11, 12, 13, 28, 29, 30, 31, 32, 133, 160 :: nat})"

definition py_strip :: "string \<Rightarrow> string" where
  "py_strip s = rev (dropWhile isspace (rev (dropWhile isspace s)))"

text \<open>\<^verbatim>\<open>s.split(sep)\<close> for a separator of one character: one piece more than separators.\<close>

fun py_split :: "char \<Rightarrow> string \<Rightarrow> string list" where
  "py_split sep [] = [[]]"
| "py_split sep (c # cs) =
     (if c = sep then [] # py_split sep cs
      else (case py_split sep cs of
              p # ps \<Rightarrow> (c # p) # ps
            | [] \<Rightarrow> [[c]]))"

text \<open>\<^verbatim>\<open>sub in s\<close> on strings.\<close>

fun py_in :: "string \<Rightarrow> string \<Rightarrow> bool" where
  "py_in sub [] = (sub = [])"
| "py_in sub (c # cs) = (take (length sub) (c # cs) = sub \<or> py_in sub cs)"

definition isdigit :: "char \<Rightarrow> bool" where
  "isdigit c = (48 \<le> (of_char c :: nat) \<and> (of_char c :: nat) \<le> 57)"

definition decimal :: "string \<Rightarrow> nat" where
  "decimal ds = foldl (\<lambda>n c. 10 * n + (of_char c - 48)) 0 ds"

text \<open>
  \<^verbatim>\<open>int(s)\<close>: surrounding whitespace, an optional sign, one or more decimal digits;
  \<open>None\<close> stands for the \<^verbatim>\<open>ValueError\<close> of every other text. Python's integers are
  unbounded.
\<close>

definition py_int :: "string \<Rightarrow> int option" where
  "py_int s =
     (let t = py_strip s;
          neg = (case t of c # _ \<Rightarrow> c = CHR ''-'' | [] \<Rightarrow> False);
          ds = (case t of c # r \<Rightarrow> if c = CHR ''-'' \<or> c = CHR ''+'' then r else t | [] \<Rightarrow> [])
      in if ds = [] then None
         else if list_all isdigit ds
         then Some (if neg then - int (decimal ds) else int (decimal ds))
         else None)"

text \<open>\<^verbatim>\<open>'%s' % n\<close> for an integer \<open>n\<close>.\<close>

definition digit_char :: "nat \<Rightarrow> char" where
  "digit_char d = ''0123456789'' ! d"

fun digits10 :: "nat \<Rightarrow> string" where
  "digits10 n =
     (if n < 10 then [digit_char n]
      else digits10 (n div 10) @ [digit_char (n mod 10)])"

declare digits10.simps [simp del]

definition py_str :: "int \<Rightarrow> string" where
  "py_str n = (if n < 0 then CHR ''-'' # digits10 (nat (- n)) else digits10 (nat n))"

definition nl :: string where
  "nl = [CHR 0x0A]"

definition quote :: string where
  "quote = [CHR 0x27]"

subsection \<open>Exceptions\<close>

text \<open>
  The exception classes the handlers of the program tell apart. \<open>GaiError\<close> is
  \<^verbatim>\<open>socket.gaierror\<close>, a subclass of \<^verbatim>\<open>socket.error\<close>; both carry their message.
  \<open>OtherError\<close> is any exception of another class.
\<close>

datatype exn =
    AuthenticationError
  | GaiError string
  | SocketError string
  | ValueError
  | AttributeError
  | KeyError
  | TypeError
  | OtherError string

text \<open>What \<^verbatim>\<open>except socket.gaierror\<close> and \<^verbatim>\<open>except socket.error\<close> catch.\<close>

fun is_gaierror :: "exn \<Rightarrow> bool" where
  "is_gaierror (GaiError m) = True"
| "is_gaierror e = False"

fun is_socket_error :: "exn \<Rightarrow> bool" where
  "is_socket_error (SocketError m) = True"
| "is_socket_error (GaiError m) = True"
| "is_socket_error e = False"

text \<open>\<^verbatim>\<open>'%s' % e\<close>.\<close>

fun exn_str :: "exn \<Rightarrow> string" where
  "exn_str (SocketError m) = m"
| "exn_str (GaiError m) = m"
| "exn_str (OtherError m) = m"
| "exn_str e = []"

section \<open>The state of the main window\<close>

type_synonym dict = "string \<rightharpoonup> string"

type_synonym ref = nat

text \<open>
  The attributes of the \<^verbatim>\<open>Splunkd\<close> wrapper object that the embedded code reads. The
  TCP listener records are dictionaries that \<^verbatim>\<open>poll\<close> updates in place, so the two
  lists hold references into \<open>objs\<close>, the dictionary objects of the wrapper.
\<close>

record splunkd =
  host :: string
  server_name :: string
  roles :: "string list"
  objs :: "ref \<Rightarrow> dict"
  rawtcp_status :: "ref list"
  cookedtcp_status :: "ref list"
  cluster_peers :: "dict list"
  cluster_peers_searchable :: int
  cluster_peers_up :: int
  cluster_indexes :: "dict list"
  cluster_indexes_searchable :: int
  cluster_searchheads :: "dict list"
  cluster_searchheads_connected :: int

text \<open>The widgets, by the name they have under \<^verbatim>\<open>self.ui\<close>.\<close>

record widgets =
  windowTitle :: string
  enabled :: "string \<Rightarrow> bool"
  texts :: "string \<Rightarrow> string"
  toolTip :: "string \<Rightarrow> string option"
  pixmap :: "string \<Rightarrow> string"
  rows :: "string \<Rightarrow> string list list"
  checked :: "string \<Rightarrow> bool"
  progress :: "string \<Rightarrow> int"
  items :: "string \<Rightarrow> string list"
  statusbar :: string

datatype dialog = Warning string | Critical string | Question string

text \<open>The calls that leave the program: the login, the liveness probe, the sub-polls,
  a REST call (URI, method, output format when given, body, query parameters), the restart.\<close>

datatype call =
    Login string int string string
  | Settings
  | SubPoll string
  | RestCall string string "string option" string dict
  | Restart

text \<open>\<open>splunkd = None\<close>: the window has no attribute \<^verbatim>\<open>self.splunkd\<close>.\<close>

record window =
  splunkd :: "splunkd option"
  ui :: widgets
  dialogs :: "dialog list"
  calls :: "call list"

text \<open>How a slot ends: it returns, an exception leaves it, it goes on to call
  \<^verbatim>\<open>self.poll()\<close>, or (for \<^verbatim>\<open>poll\<close>) it goes on to populate the widgets.\<close>

datatype exit = Returns | Raises exn | Polls | Populates

definition statusbar_msg :: "string \<Rightarrow> window \<Rightarrow> window" where
  "statusbar_msg msg w = w\<lparr>ui := (ui w)\<lparr>statusbar := msg\<rparr>\<rparr>"

definition warning_msg :: "string \<Rightarrow> window \<Rightarrow> window" where
  "warning_msg msg w = w\<lparr>dialogs := dialogs w @ [Warning msg]\<rparr>"

definition critical_msg :: "string \<Rightarrow> window \<Rightarrow> window" where
  "critical_msg msg w = w\<lparr>dialogs := dialogs w @ [Critical msg]\<rparr>"

definition called :: "call \<Rightarrow> window \<Rightarrow> window" where
  "called c w = w\<lparr>calls := calls w @ [c]\<rparr>"

text \<open>A run of setter calls on widgets of one kind, in the order of the source.\<close>

definition upds :: "('k \<times> 'v) list \<Rightarrow> ('k \<Rightarrow> 'v) \<Rightarrow> ('k \<Rightarrow> 'v)" where
  "upds kvs f = foldl (\<lambda>g kv. g(fst kv := snd kv)) f kvs"

section \<open>MainWindow.disconnect\<close>

text \<open>\<^verbatim>\<open>del self.splunkd\<close> raises \<^verbatim>\<open>AttributeError\<close> when the attribute is absent.\<close>

definition del_splunkd :: "window \<Rightarrow> exn + window" where
  "del_splunkd w =
     (case splunkd w of
        None \<Rightarrow> Inl AttributeError
      | Some sp \<Rightarrow> Inr (w\<lparr>splunkd := None\<rparr>))"

definition reset_widgets :: "widgets \<Rightarrow> widgets" where
  "reset_widgets u =
     u\<lparr>windowTitle := ''Misner Splunk Tool'',
       enabled := upds
         [(''comboAddress'', True), (''editUsername'', True), (''editPassword'', True),
          (''tabWidgetMain'', False), (''buttonPoll'', False)] (enabled u),
       texts := upds
         [(''buttonToggle'', ''Connect''),
          (''labelHost'', ''(none)''), (''labelType'', ''(none)''), (''labelGUID'', ''(none)''),
          (''labelOS'', ''(none)''), (''labelSystem'', ''(none)''), (''labelUptime'', ''(none)''),
          (''labelRestartRequired'', ''?''), (''labelDeploymentServer'', ''(none)''),
          (''labelClusterMasterHeader'', ''Cluster Master:''), (''labelClusterMaster'', ''(none)''),
          (''labelSHCDeployer'', ''(none)''), (''editConfig'', ''''),
          (''labelClusterPeersSearchable'', ''? searchable''),
          (''labelClusterPeersNotSearchable'', ''? not searchable''),
          (''labelClusterIndexesSearchable'', ''? searchable''),
          (''labelClusterIndexesNotSearchable'', ''? not searchable''),
          (''labelClusterPeersUp'', ''?/? Peers Up''),
          (''labelClusterSearchHeadsUp'', ''?/? Search Heads Up''),
          (''labelSHClusterCaptain'', ''(none)''), (''labelSHClusterCaptainElected'', ''(none)''),
          (''labelResourceUsageMemory'', ''(none)''), (''labelResourceUsageSwapHeader'', ''Swap:''),
          (''labelResourceUsageSwap'', ''(none)''), (''editRestResult'', '''')] (texts u),
       toolTip := upds
         [(''labelRole'', None), (''labelOS'', Some ''(none)''), (''labelUptime'', None),
          (''labelDeploymentServer'', None), (''labelClusterMaster'', None),
          (''labelSHCDeployer'', None)] (toolTip u),
       pixmap := upds [(''labelRole'', '':/blank.png'')] (pixmap u),
       rows := upds
         [(''tableMessages'', []), (''tableFileStatus'', []), (''tableTCP'', []),
          (''tableUDP'', []), (''tableModular'', []), (''tableExec'', []), (''tableApps'', []),
          (''tableClusterPeers'', []), (''tableClusterIndexes'', []),
          (''tableClusterSearchHeads'', []), (''tableSHClusterMembers'', []),
          (''tableResourceUsageProcesses'', []), (''tableResourceUsageDisks'', [])] (rows u),
       checked := upds
         [(''checkClusterDataSearchable'', False), (''checkClusterSearchFactorMet'', False),
          (''checkClusterReplicationFactorMet'', False), (''checkClusterMaintenanceMode'', False),
          (''checkClusterRollingRestartFlag'', False), (''checkClusterInitializedFlag'', False),
          (''checkClusterServiceReadyFlag'', False), (''checkClusterIndexingReadyFlag'', False),
          (''checkSHClusterInitializedFlag'', False), (''checkSHClusterServiceReadyFlag'', False),
          (''checkSHClusterMinimumPeersJoinedFlag'', False), (''checkSHClusterDynamicCaptain'', False),
          (''checkSHClusterRollingRestartFlag'', False)] (checked u),
       progress := upds
         [(''progressResourceUsageCPU'', 0), (''progressResourceUsageMemory'', 0),
          (''progressResourceUsageSwap'', 0)] (progress u),
       statusbar := ''Disconnected''\<rparr>"

text \<open>
  The handler \<^verbatim>\<open>except AttributeError: pass\<close> keeps the window as it is; then the
  widgets are reset.
\<close>

definition disconnect :: "window \<Rightarrow> window" where
  "disconnect w =
     (let w1 = (case del_splunkd w of Inl e \<Rightarrow> w | Inr w' \<Rightarrow> w')
      in w1\<lparr>ui := reset_widgets (ui w1)\<rparr>)"

section \<open>MainWindow.connect\<close>

text \<open>Lines 411 to 415: the text of the address box, not its trimmed copy, is split.\<close>

definition split_address :: "string \<Rightarrow> exn + string \<times> int" where
  "split_address address =
     (case py_split CHR '':'' address of
        [splunk_host, splunk_port] \<Rightarrow>
          (case py_int splunk_port of
             None \<Rightarrow> Inl ValueError
           | Some n \<Rightarrow> Inr (splunk_host, n))
      | _ \<Rightarrow> Inl ValueError)"

text \<open>
  Lines 420 to 448. \<open>Splunkd\<close> is the constructor of the wrapper, which logs in over
  the network. The \<^verbatim>\<open>finally\<close> clause sets the status bar on every path.
\<close>

definition create_splunkd ::
  "(string \<Rightarrow> int \<Rightarrow> string \<Rightarrow> string \<Rightarrow> exn + splunkd) \<Rightarrow>
   string \<Rightarrow> int \<Rightarrow> string \<Rightarrow> string \<Rightarrow> window \<Rightarrow> window \<times> exit" where
  "create_splunkd Splunkd splunk_host splunk_port splunk_user splunk_pass w =
     (let hst = quote @ splunk_host @ '':'' @ py_str splunk_port @ quote;
          w1 = statusbar_msg (''Connecting to host '' @ hst @ ''...'') w;
          w2 = called (Login splunk_host splunk_port splunk_user splunk_pass) w1
      in case Splunkd splunk_host splunk_port splunk_user splunk_pass of
           Inl e \<Rightarrow>
             if e = AuthenticationError
             then (statusbar_msg ''Connection failed''
                     (warning_msg (''Authentication error connecting to host '' @ hst) w2),
                   Returns)
             else if is_gaierror e
             then (statusbar_msg ''Connection failed''
                     (warning_msg (''Unable to connect to host '' @ hst) w2), Returns)
             else if is_socket_error e
             then (statusbar_msg ''Connection failed''
                     (warning_msg
                        (''Unable to connect to host '' @ hst @ '':'' @ nl @ exn_str e) w2),
                   Returns)
             else (statusbar_msg ''Connection failed'' w2, Raises e)
         | Inr sp \<Rightarrow>
             (let w3 = statusbar_msg ''Connected''
                         (statusbar_msg ''Connection failed'' (w2\<lparr>splunkd := Some sp\<rparr>));
                  u = ui w3
              in (w3\<lparr>ui := u\<lparr>enabled := upds
                                [(''comboAddress'', False), (''editUsername'', False),
                                 (''editPassword'', False), (''tabWidgetMain'', True),
                                 (''buttonPoll'', True)] (enabled u),
                              texts := upds [(''buttonToggle'', ''Disconnect'')] (texts u)\<rparr>\<rparr>,
                  Polls)))"

text \<open>Lines 395 to 448: up to the call of \<^verbatim>\<open>self.poll()\<close>.\<close>

definition connect ::
  "(string \<Rightarrow> int \<Rightarrow> string \<Rightarrow> string \<Rightarrow> exn + splunkd) \<Rightarrow> window \<Rightarrow> window \<times> exit" where
  "connect Splunkd w =
     (let address = texts (ui w) ''comboAddress'';
          splunk_host = py_strip address;
          splunk_user = py_strip (texts (ui w) ''editUsername'');
          splunk_pass = py_strip (texts (ui w) ''editPassword'')
      in if splunk_host = [] then (warning_msg ''Missing Splunk address'' w, Returns)
         else if splunk_user = [] then (warning_msg ''Missing Splunk username'' w, Returns)
         else if splunk_pass = [] then (warning_msg ''Missing Splunk password'' w, Returns)
         else (case (if CHR '':'' \<in> set splunk_host then split_address address
                     else Inr (splunk_host, 8089)) of
                 Inl e \<Rightarrow> (w, Raises e)
               | Inr (h, splunk_port) \<Rightarrow>
                   if 0 < splunk_port \<and> splunk_port < 65536
                   then create_splunkd Splunkd h splunk_port splunk_user splunk_pass w
                   else (warning_msg ''Invalid port specified'' w, Returns)))"

section \<open>MainWindow.poll\<close>

text \<open>
  The wrapper module is not part of the program text, so the answers of the remote side
  are parameters: \<open>service_settings\<close> is the exception, if any, that reading
  \<^verbatim>\<open>self.splunkd.service.settings\<close> raises, and each sub-poll maps the wrapper object to
  its updated attributes and the exception, if any, that the call raises.
\<close>

type_synonym sub_poll = "splunkd \<Rightarrow> splunkd \<times> exn option"

record remote =
  service_settings :: "exn option"
  poll_service_info :: sub_poll
  poll_service_settings :: sub_poll
  poll_service_messages :: sub_poll
  get_service_confs :: sub_poll
  get_services_admin_inputstatus :: sub_poll
  poll_service_apps :: sub_poll
  get_services_cluster_master :: sub_poll
  get_services_shcluster :: sub_poll
  get_services_server_status :: sub_poll

text \<open>Lines 569 to 586: the status message, the name and the call of each sub-poll.\<close>

definition sub_polls :: "remote \<Rightarrow> (string \<times> string \<times> sub_poll) list" where
  "sub_polls env =
     [(''Polling service info...'', ''poll_service_info'', poll_service_info env),
      (''Polling settings...'', ''poll_service_settings'', poll_service_settings env),
      (''Polling messages...'', ''poll_service_messages'', poll_service_messages env),
      (''Polling configurations...'', ''get_service_confs'', get_service_confs env),
      (''Polling input status...'', ''get_services_admin_inputstatus'',
         get_services_admin_inputstatus env),
      (''Polling apps...'', ''poll_service_apps'', poll_service_apps env),
      (''Polling cluster master info...'', ''get_services_cluster_master'',
         get_services_cluster_master env),
      (''Polling search head cluster info...'', ''get_services_shcluster'',
         get_services_shcluster env),
      (''Polling introspection...'', ''get_services_server_status'',
         get_services_server_status env)]"

text \<open>The body of the second \<^verbatim>\<open>try\<close>: the first exception ends the sequence.\<close>

fun run_sub_polls :: "(string \<times> string \<times> sub_poll) list \<Rightarrow> window \<Rightarrow> window \<times> exn option" where
  "run_sub_polls [] w = (w, None)"
| "run_sub_polls ((msg, name, step) # rest) w =
     (let w1 = statusbar_msg msg w
      in case splunkd w1 of
           None \<Rightarrow> (w1, Some AttributeError)
         | Some sp \<Rightarrow>
             (let w2 = called (SubPoll name) (w1\<lparr>splunkd := Some (fst (step sp))\<rparr>)
              in case snd (step sp) of
                   Some e \<Rightarrow> (w2, Some e)
                 | None \<Rightarrow> run_sub_polls rest w2))"

text \<open>
  Lines 548 to 593. The first \<^verbatim>\<open>try\<close> has three handlers (authentication, socket,
  bare \<^verbatim>\<open>except\<close>); the second has one, for \<^verbatim>\<open>socket.error\<close>, so any other
  exception of a sub-poll leaves \<^verbatim>\<open>poll\<close>. \<open>Populates\<close>: control reaches line 593.
\<close>

definition poll :: "remote \<Rightarrow> window \<Rightarrow> window \<times> exit" where
  "poll env w =
     (case splunkd w of
        None \<Rightarrow>
          (critical_msg ''Unknown error while attempting to poll splunkd'' (disconnect w),
           Returns)
      | Some sp \<Rightarrow>
          (let w0 = called Settings w
           in case service_settings env of
                Some e \<Rightarrow>
                  if e = AuthenticationError
                  then (critical_msg ''Splunk connection reset'' (disconnect w0), Returns)
                  else if is_socket_error e
                  then (critical_msg
                          (''Socket error while attempting to poll splunkd:'' @ nl @ exn_str e)
                          (disconnect w0), Returns)
                  else (critical_msg ''Unknown error while attempting to poll splunkd''
                          (disconnect w0), Returns)
              | None \<Rightarrow>
                  (case run_sub_polls (sub_polls env) w0 of
                     (w1, Some e) \<Rightarrow>
                       if is_socket_error e
                       then (critical_msg
                               (''Socket error while attempting to poll splunkd:'' @ nl
                                  @ exn_str e)
                               (disconnect w1), Returns)
                       else (w1, Raises e)
                   | (w1, None) \<Rightarrow> (statusbar_msg ''Populating GUI...'' w1, Populates))))"

subsection \<open>Populating the widgets\<close>

text \<open>\<^verbatim>\<open>table_builder\<close>: \<^verbatim>\<open>entry[field]\<close> raises \<^verbatim>\<open>KeyError\<close> for a missing field.\<close>

fun project :: "dict \<Rightarrow> string list \<Rightarrow> exn + string list" where
  "project entry [] = Inr []"
| "project entry (field # names) =
     (case entry field of
        None \<Rightarrow> Inl KeyError
      | Some v \<Rightarrow>
          (case project entry names of
             Inl e \<Rightarrow> Inl e
           | Inr vs \<Rightarrow> Inr (v # vs)))"

fun table_builder :: "dict list \<Rightarrow> string list \<Rightarrow> exn + string list list" where
  "table_builder [] names = Inr []"
| "table_builder (entry # collection) names =
     (case project entry names of
        Inl e \<Rightarrow> Inl e
      | Inr r \<Rightarrow>
          (case table_builder collection names of
             Inl e \<Rightarrow> Inl e
           | Inr rs \<Rightarrow> Inr (r # rs)))"

text \<open>
  Lines 683 to 689. Each loop stores the tag into the dictionary object itself
  (\<^verbatim>\<open>monitor['tcptype'] = ...\<close>) and appends the reference to \<^verbatim>\<open>tcpmonitors\<close>.
\<close>

fun tag_monitors ::
  "string \<Rightarrow> ref list \<Rightarrow> ref list \<times> (ref \<Rightarrow> dict) \<Rightarrow> ref list \<times> (ref \<Rightarrow> dict)" where
  "tag_monitors tag [] (tcpmonitors, h) = (tcpmonitors, h)"
| "tag_monitors tag (monitor # rest) (tcpmonitors, h) =
     tag_monitors tag rest
       (tcpmonitors @ [monitor], h(monitor := (h monitor)(''tcptype'' \<mapsto> tag)))"

definition tcpmonitors :: "splunkd \<Rightarrow> ref list \<times> (ref \<Rightarrow> dict)" where
  "tcpmonitors sp =
     tag_monitors ''Cooked'' (cookedtcp_status sp)
       (tag_monitors ''Raw'' (rawtcp_status sp) ([], objs sp))"

text \<open>Lines 690 to 691: the rows of \<^verbatim>\<open>tableTCP\<close>.\<close>

definition tcp_table :: "splunkd \<Rightarrow> exn + string list list" where
  "tcp_table sp =
     (case tcpmonitors sp of
        (ms, h) \<Rightarrow> table_builder (map h ms) [''tcptype'', ''port'', ''source'', ''opened''])"

text \<open>Lines 711 to 722: the labels of the indexer cluster tab.\<close>

definition peers_unsearchable :: "splunkd \<Rightarrow> int" where
  "peers_unsearchable sp = int (length (cluster_peers sp)) - cluster_peers_searchable sp"

definition indexes_unsearchable :: "splunkd \<Rightarrow> int" where
  "indexes_unsearchable sp = int (length (cluster_indexes sp)) - cluster_indexes_searchable sp"

definition cluster_labels :: "splunkd \<Rightarrow> widgets \<Rightarrow> widgets" where
  "cluster_labels sp u =
     (if ''cluster_master'' \<in> set (roles sp)
      then u\<lparr>texts := upds
             [(''labelClusterPeersSearchable'',
                 py_str (cluster_peers_searchable sp) @ '' searchable''),
              (''labelClusterPeersNotSearchable'',
                 py_str (peers_unsearchable sp) @ '' not searchable''),
              (''labelClusterIndexesSearchable'',
                 py_str (cluster_indexes_searchable sp) @ '' searchable''),
              (''labelClusterIndexesNotSearchable'',
                 py_str (indexes_unsearchable sp) @ '' not searchable''),
              (''labelClusterPeersUp'',
                 py_str (cluster_peers_up sp) @ ''/'' @ py_str (int (length (cluster_peers sp)))
                   @ '' Peers Up''),
              (''labelClusterSearchHeadsUp'',
                 py_str (cluster_searchheads_connected sp) @ ''/''
                   @ py_str (int (length (cluster_searchheads sp))) @ '' Search Heads Up'')]
             (texts u)\<rparr>
      else u)"

section \<open>MainWindow.buttonRestSend_clicked\<close>

text \<open>Lines 1042 to 1044: \<^verbatim>\<open>key, value = parameter.split('=')\<close> needs two pieces.\<close>

fun parse_parameters :: "string list \<Rightarrow> dict \<Rightarrow> exn + dict" where
  "parse_parameters [] parameters = Inr parameters"
| "parse_parameters (parameter # rest) parameters =
     (case py_split CHR ''='' parameter of
        [key, val] \<Rightarrow> parse_parameters rest (parameters(key \<mapsto> val))
      | _ \<Rightarrow> Inl ValueError)"

text \<open>Lines 1040 to 1044: \<^verbatim>\<open>uri, parameter_string = uri.split('?')\<close> needs two pieces.\<close>

definition parse_uri :: "string \<Rightarrow> exn + string \<times> dict" where
  "parse_uri uri =
     (if CHR ''?'' \<in> set uri
      then (case py_split CHR ''?'' uri of
              [u, parameter_string] \<Rightarrow>
                (case parse_parameters (py_split CHR ''&'' parameter_string) Map.empty of
                   Inl e \<Rightarrow> Inl e
                 | Inr parameters \<Rightarrow> Inr (u, parameters))
            | _ \<Rightarrow> Inl ValueError)
      else Inr (uri, Map.empty))"

text \<open>
  Modelled from the spec: the declaration of \<^verbatim>\<open>rest_call\<close>, which is in the wrapper
  module and not in the program text. The call of line 1051 fills the receiver and two
  parameters by position and two parameters by keyword. The receiver is \<^verbatim>\<open>self\<close>; the
  two positional parameters carry the names that the spec's
  \<^verbatim>\<open>execute(session, method, uri, query_params, body)\<close> and the arguments of lines 980
  and 1051 give them, \<^verbatim>\<open>uri\<close> and \<^verbatim>\<open>method\<close> (line 980 passes \<^verbatim>\<open>method\<close> by keyword);
  \<^verbatim>\<open>output_format\<close> and \<^verbatim>\<open>body_input\<close> are the keywords of line 1051. Any other
  keyword is taken by the method, as the call with \<^verbatim>\<open>**parameters\<close> presupposes.
\<close>

definition filled_by_call :: "string list" where
  "filled_by_call = [''self'', ''uri'', ''method'', ''output_format'', ''body_input'']"

text \<open>
  Lines 1022 to 1062. \<open>settings\<close> is the exception, if any, of the liveness probe, of
  which only \<^verbatim>\<open>AuthenticationError\<close> is handled. \<open>rest_call\<close> is the wrapper's method:
  URI, method, output format, body and keyword parameters. A key of \<^verbatim>\<open>parameters\<close> named
  like a parameter that the call already fills makes the call raise \<^verbatim>\<open>TypeError\<close> while
  the arguments are bound (multiple values for one parameter), before the method runs;
  the bare \<^verbatim>\<open>except\<close> around the call returns on every exception.
\<close>

definition buttonRestSend_clicked ::
  "exn option \<Rightarrow> (string \<Rightarrow> string \<Rightarrow> string \<Rightarrow> string \<Rightarrow> dict \<Rightarrow> exn + string) \<Rightarrow>
   window \<Rightarrow> window \<times> exit" where
  "buttonRestSend_clicked settings rest_call w =
     (case splunkd w of
        None \<Rightarrow> (w, Raises AttributeError)
      | Some sp \<Rightarrow>
          (let w0 = called Settings w
           in case settings of
                Some e \<Rightarrow>
                  if e = AuthenticationError
                  then (critical_msg ''Splunk connection reset'' (disconnect w0), Returns)
                  else (w0, Raises e)
              | None \<Rightarrow>
                  (let method = texts (ui w0) ''comboRestMethod'';
                       combobox_text = texts (ui w0) ''comboRestURI'';
                       body_input = texts (ui w0) ''editRestBodyInput''
                   in case parse_uri combobox_text of
                        Inl e \<Rightarrow>
                          if e = ValueError
                          then (warning_msg
                                  ''Unable to parse parameters in URI, check formatting'' w0,
                                Returns)
                          else (w0, Raises e)
                      | Inr (uri, parameters) \<Rightarrow>
                          if list_ex (\<lambda>name. name \<in> dom parameters) filled_by_call
                          then (w0, Returns)
                          else
                            (let w1 = called
                                   (RestCall uri method (Some ''plaintext'') body_input parameters)
                                   w0
                             in case rest_call uri method ''plaintext'' body_input parameters of
                                  Inl e \<Rightarrow> (w1, Returns)
                                | Inr result \<Rightarrow>
                                    (let u = ui w1;
                                         history = items u ''comboRestURI''
                                     in (w1\<lparr>ui := u
                                           \<lparr>texts := (texts u)(''editRestResult'' := result),
                                            items := (items u)(''comboRestURI'' :=
                                              (if combobox_text \<in> set history then history
                                               else history @ [combobox_text]))\<rparr>\<rparr>,
                                         Returns))))))"

section \<open>MainWindow.actionChangeDeploymentServer_clicked\<close>

text \<open>
  What the slot receives from outside: the exception, if any, of the liveness probe; the
  text and the OK flag of the input dialog; the answer to the yes/no question; the result
  of the POST, where \<open>None\<close> stands for a structure without
  \<^verbatim>\<open>['response']['messages']['msg']\<close> and the dictionary is that message; the exception,
  if any, of \<^verbatim>\<open>service.restart()\<close>.
\<close>

record deployment_env =
  probe :: "exn option"
  getText :: "string \<times> bool"
  answer :: bool
  post :: "string \<Rightarrow> string \<Rightarrow> string \<Rightarrow> exn + dict option"
  restart :: "exn option"

text \<open>Lines 977 to 999: the body of the \<^verbatim>\<open>try\<close> with its bare \<^verbatim>\<open>except\<close>.\<close>

definition target_broker :: string where
  "target_broker = ''/services/properties/deploymentclient/target-broker:deploymentServer''"

definition change_and_restart :: "deployment_env \<Rightarrow> string \<Rightarrow> string \<Rightarrow> window \<Rightarrow> window" where
  "change_and_restart env disabled targeturi w =
     (let failed = critical_msg ''Error while attempting to restart splunkd'';
          uri = target_broker;
          body_input = ''disabled='' @ disabled @ ''&targetUri='' @ targeturi;
          w1 = called (RestCall uri ''POST'' None body_input Map.empty) w
      in case post env uri ''POST'' body_input of
           Inl e \<Rightarrow> failed w1
         | Inr None \<Rightarrow> failed w1
         | Inr (Some msg) \<Rightarrow>
             (case msg ''type'' of
                None \<Rightarrow> failed w1
              | Some result_type \<Rightarrow>
                  (case msg ''$text'' of
                     None \<Rightarrow> failed w1
                   | Some result_msg \<Rightarrow>
                       if result_type \<noteq> ''INFO''
                       then critical_msg
                              (''Error while attempting to modify deployment server URI:'' @ nl
                                 @ result_msg) w1
                       else if py_in ''modified 0 key'' result_msg
                       then critical_msg
                              (''Splunkd reports no changes made to deployment server URI:'' @ nl
                                 @ result_msg) w1
                       else
                         (let w2 = called Restart w1
                          in case restart env of
                               Some e \<Rightarrow> failed w2
                             | None \<Rightarrow>
                                 statusbar_msg
                                   (''Disconnected while splunkd is restarting, ''
                                      @ ''try reconnecting in a few moments'')
                                   (disconnect w2)))))"

text \<open>Lines 960 to 974: the question put to the operator.\<close>

definition confirm_message :: "string \<Rightarrow> string \<Rightarrow> string" where
  "confirm_message new_deployment_server splunk_host =
     (if new_deployment_server \<noteq> []
      then ''Perform the following actions?'' @ nl @ nl
         @ ''- Enable deployment client.'' @ nl
         @ ''- Set deployment server URI to '' @ quote @ new_deployment_server @ quote
         @ ''.'' @ nl
         @ ''- Restart splunkd on '' @ quote @ splunk_host @ quote
      else ''Perform the following actions?'' @ nl @ nl
         @ ''- Disable deployment client.'' @ nl
         @ ''- Set deployment server URI to blank.'' @ nl
         @ ''- Restart splunkd on '' @ quote @ splunk_host @ quote)"

text \<open>Lines 943 to 1001.\<close>

definition actionChangeDeploymentServer_clicked ::
  "deployment_env \<Rightarrow> window \<Rightarrow> window \<times> exit" where
  "actionChangeDeploymentServer_clicked env w =
     (case splunkd w of
        None \<Rightarrow> (w, Raises AttributeError)
      | Some sp \<Rightarrow>
          (let w0 = called Settings w
           in case probe env of
                Some e \<Rightarrow>
                  if e = AuthenticationError
                  then (critical_msg ''Splunk connection reset'' (disconnect w0), Returns)
                  else (w0, Raises e)
              | None \<Rightarrow>
                  (let new_deployment_server = fst (getText env);
                       dialog_not_cancelled = snd (getText env)
                   in if dialog_not_cancelled
                      then
                        (let disabled = (if new_deployment_server \<noteq> [] then ''0'' else ''1'');
                             targeturi =
                               (if new_deployment_server \<noteq> [] then new_deployment_server else []);
                             message = confirm_message new_deployment_server (host sp);
                             w1 = w0\<lparr>dialogs := dialogs w0 @ [Question message]\<rparr>
                         in if answer env
                            then (change_and_restart env disabled targeturi w1, Returns)
                            else (w1, Polls))
                      else (w0, Returns))))"

section \<open>Example windows\<close>

definition blank_widgets :: widgets where
  "blank_widgets =
     \<lparr>windowTitle = [], enabled = (\<lambda>n. True), texts = (\<lambda>n. []), toolTip = (\<lambda>n. None),
      pixmap = (\<lambda>n. []), rows = (\<lambda>n. []), checked = (\<lambda>n. False), progress = (\<lambda>n. 0),
      items = (\<lambda>n. []), statusbar = []\<rparr>"

text \<open>The window after its construction, with the three fields of the top row filled in.\<close>

definition entered :: "string \<Rightarrow> string \<Rightarrow> string \<Rightarrow> window" where
  "entered address username password =
     (let w = disconnect \<lparr>splunkd = None, ui = blank_widgets, dialogs = [], calls = []\<rparr>
      in w\<lparr>ui := (ui w)\<lparr>texts := upds
              [(''comboAddress'', address), (''editUsername'', username),
               (''editPassword'', password)] (texts (ui w))\<rparr>\<rparr>)"

text \<open>A wrapper object: a cluster master with one raw and one cooked TCP listener.\<close>

definition example_splunkd :: splunkd where
  "example_splunkd =
     \<lparr>host = ''splunk.example.com'', server_name = ''splunk01'',
      roles = [''indexer'', ''cluster_master''],
      objs = (\<lambda>r. if r = 0
                  then [''port'' \<mapsto> ''514'', ''source'' \<mapsto> ''10.0.0.5'', ''opened'' \<mapsto> ''09:00'']
                  else if r = 1
                  then [''port'' \<mapsto> ''9997'', ''source'' \<mapsto> ''10.0.0.7'', ''opened'' \<mapsto> ''09:30'']
                  else Map.empty),
      rawtcp_status = [0], cookedtcp_status = [1],
      cluster_peers = [[''name'' \<mapsto> ''idx1''], [''name'' \<mapsto> ''idx2''], [''name'' \<mapsto> ''idx3'']],
      cluster_peers_searchable = 2, cluster_peers_up = 3,
      cluster_indexes = [[''name'' \<mapsto> ''main''], [''name'' \<mapsto> ''_internal'']],
      cluster_indexes_searchable = 2,
      cluster_searchheads = [[''name'' \<mapsto> ''sh1'']], cluster_searchheads_connected = 1\<rparr>"

text \<open>A connected window.\<close>

definition connected :: window where
  "connected =
     (entered ''splunk.example.com:8089'' ''admin'' ''changeme'')\<lparr>splunkd := Some example_splunkd\<rparr>"

text \<open>A connected window with the fields of the REST API tab filled in.\<close>

definition rest_tab :: "string \<Rightarrow> string \<Rightarrow> string \<Rightarrow> window" where
  "rest_tab method uri body_input =
     connected\<lparr>ui := (ui connected)\<lparr>texts := upds
        [(''comboRestMethod'', method), (''comboRestURI'', uri),
         (''editRestBodyInput'', body_input)] (texts (ui connected))\<rparr>\<rparr>"

text \<open>A remote side that answers the probe and every sub-poll without an exception.\<close>

definition live :: remote where
  "live =
     \<lparr>service_settings = None,
      poll_service_info = (\<lambda>sp. (sp, None)),
      poll_service_settings = (\<lambda>sp. (sp, None)),
      poll_service_messages = (\<lambda>sp. (sp, None)),
      get_service_confs = (\<lambda>sp. (sp, None)),
      get_services_admin_inputstatus = (\<lambda>sp. (sp, None)),
      poll_service_apps = (\<lambda>sp. (sp, None)),
      get_services_cluster_master = (\<lambda>sp. (sp, None)),
      get_services_shcluster = (\<lambda>sp. (sp, None)),
      get_services_server_status = (\<lambda>sp. (sp, None))\<rparr>"

text \<open>The session is invalidated after the probe: the third sub-poll is refused.\<close>

definition session_expires :: remote where
  "session_expires = live\<lparr>poll_service_messages := (\<lambda>sp. (sp, Some AuthenticationError))\<rparr>"

text \<open>The fifth sub-poll raises an exception that is neither of the two classes.\<close>

definition inputstatus_breaks :: remote where
  "inputstatus_breaks = live\<lparr>get_services_admin_inputstatus := (\<lambda>sp. (sp, Some KeyError))\<rparr>"

text \<open>
  The operator leaves the input dialog empty, pushes OK and answers yes; the server
  answers with a message of the given type and text; the restart request then succeeds
  or raises.
\<close>

definition disable_client :: "string \<Rightarrow> string \<Rightarrow> exn option \<Rightarrow> deployment_env" where
  "disable_client result_type result_msg restart_raises =
     \<lparr>probe = None, getText = ([], True), answer = True,
      post = (\<lambda>uri method body_input.
                Inr (Some [''type'' \<mapsto> result_type, ''$text'' \<mapsto> result_msg])),
      restart = restart_raises\<rparr>"

text \<open>A login that is refused by the network, and a wrapper that answers every REST call.\<close>

definition refused :: "string \<Rightarrow> int \<Rightarrow> string \<Rightarrow> string \<Rightarrow> exn + splunkd" where
  "refused splunk_host splunk_port splunk_user splunk_pass = Inl (SocketError ''refused'')"


section \<open>Properties\<close>

lemma py_split_nonempty: "py_split sep s \<noteq> []"
  by (induction s) (auto split: list.splits)

subsection \<open>Helper facts\<close>

lemma upds_apply:
  "upds kvs f x = (case map_of (rev kvs) x of None \<Rightarrow> f x | Some v \<Rightarrow> v)"
  unfolding upds_def
  by (induction kvs arbitrary: f) (auto split: option.splits simp: map_add_def)

lemma upds_idem: "upds kvs (upds kvs f) = upds kvs f"
  by (rule ext) (simp add: upds_apply split: option.splits)

lemma reset_widgets_idem: "reset_widgets (reset_widgets u) = reset_widgets u"
  by (simp add: reset_widgets_def upds_idem)

lemma splunkd_disconnect: "splunkd (disconnect w) = None"
  by (simp add: disconnect_def del_splunkd_def Let_def split: option.splits)

lemma dialogs_disconnect: "dialogs (disconnect w) = dialogs w"
  by (simp add: disconnect_def del_splunkd_def Let_def split: option.splits)

lemma calls_disconnect: "calls (disconnect w) = calls w"
  by (simp add: disconnect_def del_splunkd_def Let_def split: option.splits)

lemma disconnect_twice: "disconnect (disconnect w) = disconnect w"
  by (simp add: disconnect_def del_splunkd_def Let_def reset_widgets_idem split: option.splits)

lemma disconnect_widgets:
  "texts (ui (disconnect w)) ''buttonToggle'' = ''Connect''"
  "statusbar (ui (disconnect w)) = ''Disconnected''"
  "enabled (ui (disconnect w)) ''buttonPoll'' = False"
  "enabled (ui (disconnect w)) ''tabWidgetMain'' = False"
  by (simp_all add: disconnect_def del_splunkd_def Let_def reset_widgets_def upds_apply
      split: option.splits)

lemma calls_warning_msg: "calls (warning_msg m w) = calls w"
  by (simp add: warning_msg_def)

lemma calls_statusbar_msg: "calls (statusbar_msg m w) = calls w"
  by (simp add: statusbar_msg_def)

lemma py_split_two_sep: "py_split c s = [a, b] \<Longrightarrow> c \<in> set s"
  by (induction s arbitrary: a b) (auto split: if_splits list.splits)

lemma dropWhile_keeps: "x \<in> set s \<Longrightarrow> \<not> P x \<Longrightarrow> x \<in> set (dropWhile P s)"
  by (induction s) auto

lemma colon_py_strip: "CHR '':'' \<in> set s \<Longrightarrow> CHR '':'' \<in> set (py_strip s)"
  unfolding py_strip_def
  by (simp add: dropWhile_keeps isspace_def)

lemma calls_create_splunkd:
  "calls (fst (create_splunkd S h p u pw w)) = calls w @ [Login h p u pw]"
  by (simp add: create_splunkd_def Let_def called_def calls_warning_msg calls_statusbar_msg
      split: sum.splits)

lemma texts_entered:
  "texts (ui (entered a u p)) ''comboAddress'' = a"
  "texts (ui (entered a u p)) ''editUsername'' = u"
  "texts (ui (entered a u p)) ''editPassword'' = p"
  by (simp_all add: entered_def Let_def upds_apply)

lemma calls_entered: "calls (entered a u p) = []"
  by (simp add: entered_def Let_def calls_disconnect)

lemma dialogs_create_splunkd:
  "dialogs (fst (create_splunkd S h p u pw w)) \<noteq> dialogs w @ [Warning ''Invalid port specified'']"
  by (simp add: create_splunkd_def Let_def called_def warning_msg_def statusbar_msg_def
      split: sum.splits)







lemma parse_parameters_Inl: "parse_parameters ps m = Inl e \<Longrightarrow> e = ValueError"
  by (induction ps arbitrary: m) (auto split: list.splits)

lemma parse_uri_Inl: "parse_uri uri = Inl e \<Longrightarrow> e = ValueError"
  by (auto simp: parse_uri_def split: if_splits list.splits sum.splits dest: parse_parameters_Inl)

lemma splunkd_connected: "splunkd connected = Some example_splunkd"
  by (simp add: connected_def)

lemma calls_connected: "calls connected = []"
  by (simp add: connected_def calls_entered)

lemma dialogs_connected: "dialogs connected = []"
  by (simp add: connected_def entered_def Let_def dialogs_disconnect)

lemma rest_tab_simps:
  "splunkd (rest_tab m u b) = Some example_splunkd"
  "texts (ui (rest_tab m u b)) ''comboRestMethod'' = m"
  "texts (ui (rest_tab m u b)) ''comboRestURI'' = u"
  "texts (ui (rest_tab m u b)) ''editRestBodyInput'' = b"
  "calls (rest_tab m u b) = []"
  by (simp_all add: rest_tab_def upds_apply splunkd_connected calls_connected)

text \<open>The decimal rendering of an integer reads back as that integer.\<close>

lemma digit_char_code: "d < 10 \<Longrightarrow> of_char (digit_char d) = 48 + d"
proof -
  assume "d < 10"
  then have "d \<in> {0, 1, 2, 3, 4, 5, 6, 7, 8, 9}" by auto
  then show ?thesis by (auto simp: digit_char_def)
qed

lemma isdigit_digit_char: "d < 10 \<Longrightarrow> isdigit (digit_char d)"
  by (simp add: isdigit_def digit_char_code)

lemma decimal_snoc: "decimal (ds @ [c]) = 10 * decimal ds + (of_char c - 48)"
  by (simp add: decimal_def)

lemma digits10_props:
  "digits10 n \<noteq> [] \<and> list_all isdigit (digits10 n) \<and> decimal (digits10 n) = n"
proof (induction n rule: digits10.induct)
  case (1 n)
  show ?case
  proof (cases "n < 10")
    case True
    then show ?thesis
      by (simp add: digits10.simps [of n] isdigit_digit_char decimal_def digit_char_code)
  next
    case False
    have m: "n mod 10 < 10" by simp
    from False 1 have ih: "digits10 (n div 10) \<noteq> []" "list_all isdigit (digits10 (n div 10))"
      "decimal (digits10 (n div 10)) = n div 10"
      by simp_all
    from False ih m show ?thesis
      by (simp add: digits10.simps [of n] isdigit_digit_char decimal_snoc digit_char_code)
  qed
qed

lemma isdigit_not_space: "isdigit c \<Longrightarrow> \<not> isspace c"
  by (auto simp: isdigit_def isspace_def)

lemma py_strip_id: "s \<noteq> [] \<Longrightarrow> \<not> isspace (hd s) \<Longrightarrow> \<not> isspace (last s) \<Longrightarrow> py_strip s = s"
proof -
  assume s: "s \<noteq> []" and h: "\<not> isspace (hd s)" and l: "\<not> isspace (last s)"
  from s h have "dropWhile isspace s = s" by (cases s) simp_all
  moreover from s l have "dropWhile isspace (rev s) = rev s"
    by (cases "rev s") (simp_all add: last_rev [symmetric] hd_rev)
  ultimately show ?thesis by (simp add: py_strip_def)
qed

lemma isdigit_sign: "isdigit c \<Longrightarrow> c \<noteq> CHR ''-'' \<and> c \<noteq> CHR ''+''"
  by (auto simp: isdigit_def)

lemma py_int_py_str: "py_int (py_str n) = Some n"
proof (cases "n < 0")
  case False
  let ?ds = "digits10 (nat n)"
  from digits10_props [of "nat n"] have p: "?ds \<noteq> []" "list_all isdigit ?ds" "decimal ?ds = nat n"
    by simp_all
  then obtain c r where cr: "?ds = c # r" by (cases ?ds) simp_all
  from p have "isdigit (hd ?ds)" "isdigit (last ?ds)"
    by (simp_all add: list_all_iff)
  with p have st: "py_strip ?ds = ?ds"
    by (intro py_strip_id) (simp_all add: isdigit_not_space)
  from p cr have "isdigit c" by simp
  then have "c \<noteq> CHR ''-''" "c \<noteq> CHR ''+''" using isdigit_sign by simp_all
  with False p cr st show ?thesis
    by (simp add: py_int_def py_str_def Let_def)
next
  case True
  let ?ds = "digits10 (nat (- n))"
  from digits10_props [of "nat (- n)"]
  have p: "?ds \<noteq> []" "list_all isdigit ?ds" "decimal ?ds = nat (- n)"
    by simp_all
  from p have "isdigit (last ?ds)" by (simp add: list_all_iff)
  then have "\<not> isspace (last ?ds)" by (rule isdigit_not_space)
  moreover have "\<not> isspace CHR ''-''" by (simp add: isspace_def)
  ultimately have st: "py_strip (CHR ''-'' # ?ds) = CHR ''-'' # ?ds"
    using p by (intro py_strip_id) simp_all
  from True p st show ?thesis
    by (simp add: py_int_def py_str_def Let_def)
qed

lemma py_str_inj: "py_str a = py_str b \<Longrightarrow> a = b"
  by (metis py_int_py_str option.inject)

subsection \<open>disconnect\<close>

text \<open>
  C8. Disconnecting is idempotent: a second \<open>disconnect\<close> changes nothing. After every
  call, also on a window that never had a session, the attribute \<^verbatim>\<open>self.splunkd\<close> is
  gone (a further \<^verbatim>\<open>del\<close> would raise \<^verbatim>\<open>AttributeError\<close>, which \<open>disconnect\<close> handles),
  no dialog has been shown and the widgets display the disconnected state.
\<close>

theorem disconnect_idempotent:
  "disconnect (disconnect w) = disconnect w \<and>
   splunkd (disconnect w) = None \<and>
   splunkd (disconnect (disconnect w)) = None \<and>
   del_splunkd (disconnect w) = Inl AttributeError \<and>
   dialogs (disconnect (disconnect w)) = dialogs w \<and>
   texts (ui (disconnect w)) ''buttonToggle'' = ''Connect'' \<and>
   enabled (ui (disconnect w)) ''buttonPoll'' = False \<and>
   statusbar (ui (disconnect w)) = ''Disconnected''"
  by (simp add: disconnect_twice splunkd_disconnect dialogs_disconnect disconnect_widgets
      del_splunkd_def)

subsection \<open>connect\<close>

text \<open>
  What the checks of \<open>connect\<close> do. Each of the four warnings, in the order of the source:
  the emptiness checks are made on the trimmed texts of the three boxes, the range check
  on a port that parses as an integer.
\<close>

lemma connect_warnings:
  "py_strip (texts (ui w) ''comboAddress'') = [] \<Longrightarrow>
     connect Splunkd w = (warning_msg ''Missing Splunk address'' w, Returns)"
  "py_strip (texts (ui w) ''comboAddress'') \<noteq> [] \<Longrightarrow>
   py_strip (texts (ui w) ''editUsername'') = [] \<Longrightarrow>
     connect Splunkd w = (warning_msg ''Missing Splunk username'' w, Returns)"
  "py_strip (texts (ui w) ''comboAddress'') \<noteq> [] \<Longrightarrow>
   py_strip (texts (ui w) ''editUsername'') \<noteq> [] \<Longrightarrow>
   py_strip (texts (ui w) ''editPassword'') = [] \<Longrightarrow>
     connect Splunkd w = (warning_msg ''Missing Splunk password'' w, Returns)"
  "py_strip (texts (ui w) ''editUsername'') \<noteq> [] \<Longrightarrow>
   py_strip (texts (ui w) ''editPassword'') \<noteq> [] \<Longrightarrow>
   py_split CHR '':'' (texts (ui w) ''comboAddress'') = [h, p] \<Longrightarrow> py_int p = Some n \<Longrightarrow>
   n < 1 \<or> 65535 < n \<Longrightarrow>
     connect Splunkd w = (warning_msg ''Invalid port specified'' w, Returns)"
proof -
  assume u: "py_strip (texts (ui w) ''editUsername'') \<noteq> []"
    and pw: "py_strip (texts (ui w) ''editPassword'') \<noteq> []"
    and sp: "py_split CHR '':'' (texts (ui w) ''comboAddress'') = [h, p]"
    and n: "py_int p = Some n" and out: "n < 1 \<or> 65535 < n"
  from sp have c: "CHR '':'' \<in> set (py_strip (texts (ui w) ''comboAddress''))"
    by (intro colon_py_strip) (rule py_split_two_sep)
  then have "py_strip (texts (ui w) ''comboAddress'') \<noteq> []" by auto
  with u pw sp n out c
  show "connect Splunkd w = (warning_msg ''Invalid port specified'' w, Returns)"
    by (auto simp: connect_def Let_def split_address_def)
qed (simp_all add: connect_def Let_def)

text \<open>
  So an empty trimmed address, user name or password, or an address \<open>host:port\<close> with
  an integer port outside 1..65535, ends in a warning without any call to the remote side;
  and in every run of \<open>connect\<close> the only possible call is the login, made only with the
  three trimmed texts non-empty and a port within 1..65535.
\<close>

theorem connect_validation:
  "(py_strip (texts (ui w) ''comboAddress'') = [] \<or>
    py_strip (texts (ui w) ''editUsername'') = [] \<or>
    py_strip (texts (ui w) ''editPassword'') = [] \<or>
    (\<exists>h p n. py_split CHR '':'' (texts (ui w) ''comboAddress'') = [h, p] \<and> py_int p = Some n \<and>
       (n < 1 \<or> 65535 < n))
    \<longrightarrow> (\<exists>msg. connect Splunkd w = (warning_msg msg w, Returns)) \<and>
        calls (fst (connect Splunkd w)) = calls w)
   \<and>
   (calls (fst (connect Splunkd w)) = calls w \<or>
    (\<exists>h p. calls (fst (connect Splunkd w)) =
              calls w @ [Login h p (py_strip (texts (ui w) ''editUsername''))
                                   (py_strip (texts (ui w) ''editPassword''))] \<and>
       py_strip (texts (ui w) ''comboAddress'') \<noteq> [] \<and>
       py_strip (texts (ui w) ''editUsername'') \<noteq> [] \<and>
       py_strip (texts (ui w) ''editPassword'') \<noteq> [] \<and>
       1 \<le> p \<and> p \<le> 65535))"
proof (intro conjI impI)
  assume bad: "py_strip (texts (ui w) ''comboAddress'') = [] \<or>
    py_strip (texts (ui w) ''editUsername'') = [] \<or>
    py_strip (texts (ui w) ''editPassword'') = [] \<or>
    (\<exists>h p n. py_split CHR '':'' (texts (ui w) ''comboAddress'') = [h, p] \<and> py_int p = Some n \<and>
       (n < 1 \<or> 65535 < n))"
  show warned: "\<exists>msg. connect Splunkd w = (warning_msg msg w, Returns)"
  proof (cases "py_strip (texts (ui w) ''comboAddress'') = [] \<or>
    py_strip (texts (ui w) ''editUsername'') = [] \<or>
    py_strip (texts (ui w) ''editPassword'') = []")
    case True
    then show ?thesis by (auto simp: connect_def Let_def)
  next
    case False
    with bad obtain h p n where
      sp: "py_split CHR '':'' (texts (ui w) ''comboAddress'') = [h, p]"
      and n: "py_int p = Some n" and out: "n < 1 \<or> 65535 < n"
      by blast
    from sp have "CHR '':'' \<in> set (py_strip (texts (ui w) ''comboAddress''))"
      by (intro colon_py_strip) (rule py_split_two_sep)
    with False sp n out show ?thesis
      by (auto simp: connect_def Let_def split_address_def)
  qed
  then show "calls (fst (connect Splunkd w)) = calls w"
    by (auto simp: calls_warning_msg)
next
  show "calls (fst (connect Splunkd w)) = calls w \<or>
    (\<exists>h p. calls (fst (connect Splunkd w)) =
              calls w @ [Login h p (py_strip (texts (ui w) ''editUsername''))
                                   (py_strip (texts (ui w) ''editPassword''))] \<and>
       py_strip (texts (ui w) ''comboAddress'') \<noteq> [] \<and>
       py_strip (texts (ui w) ''editUsername'') \<noteq> [] \<and>
       py_strip (texts (ui w) ''editPassword'') \<noteq> [] \<and>
       1 \<le> p \<and> p \<le> 65535)"
    by (auto simp: connect_def Let_def calls_create_splunkd calls_warning_msg
        split: sum.splits prod.splits)
qed

theorem connect_validation_witness:
  "(\<exists>h p n. py_split CHR '':'' ''splunk:70000'' = [h, p] \<and> py_int p = Some n \<and> 65535 < n) \<and>
   (\<exists>msg. connect (\<lambda>h p u pw. Inl (SocketError ''refused''))
             (entered ''splunk:70000'' ''admin'' ''changeme'') =
           (warning_msg msg (entered ''splunk:70000'' ''admin'' ''changeme''), Returns)) \<and>
   calls (fst (connect (\<lambda>h p u pw. Inl (SocketError ''refused''))
             (entered ''splunk:70000'' ''admin'' ''changeme''))) = []"
proof -
  have h: "\<exists>h p n. py_split CHR '':'' ''splunk:70000'' = [h, p] \<and> py_int p = Some n \<and> 65535 < n"
    by (simp add: py_int_def py_strip_def isspace_def isdigit_def decimal_def)
  then have "\<exists>h p n. py_split CHR '':'' (texts (ui (entered ''splunk:70000'' ''admin'' ''changeme''))
      ''comboAddress'') = [h, p] \<and> py_int p = Some n \<and> (n < 1 \<or> 65535 < n)"
    unfolding texts_entered by blast
  with connect_validation [of "entered ''splunk:70000'' ''admin'' ''changeme''"
      "\<lambda>h p u pw. Inl (SocketError ''refused'')"] h
  show ?thesis
    by (simp only: calls_entered) blast
qed

text \<open>
  The address \<open>:8089\<close>, and the same after a blank: the trimmed text is not empty and
  holds a \<open>:\<close>, so the untrimmed text is split and the login is reached with the first
  piece as host.
\<close>

lemma dialogs_entered: "dialogs (entered a u p) = []"
  by (simp add: entered_def Let_def dialogs_disconnect)

lemma dialogs_statusbar_msg: "dialogs (statusbar_msg m w) = dialogs w"
  by (simp add: statusbar_msg_def)

lemma dialogs_warning_msg: "dialogs (warning_msg m w) = dialogs w @ [Warning m]"
  by (simp add: warning_msg_def)

lemma py_str_8089: "py_str 8089 = ''8089''"
  by (simp add: py_str_def digits10.simps digit_char_def)

lemma split_address_port_only:
  "split_address '':8089'' = Inr ([], 8089)"
  "split_address '' :8089'' = Inr ('' '', 8089)"
  by (simp_all add: split_address_def py_strip_def isspace_def py_int_def isdigit_def decimal_def)

lemma py_strip_examples:
  "py_strip '':8089'' = '':8089''"
  "py_strip '' :8089'' = '':8089''"
  "py_strip ''admin'' = ''admin''"
  "py_strip ''changeme'' = ''changeme''"
  "py_strip '' '' = []"
  by (simp_all add: py_strip_def isspace_def)

lemma connect_port_only:
  "connect S (entered '':8089'' ''admin'' ''changeme'') =
     create_splunkd S [] 8089 ''admin'' ''changeme'' (entered '':8089'' ''admin'' ''changeme'')"
  "connect S (entered '' :8089'' ''admin'' ''changeme'') =
     create_splunkd S '' '' 8089 ''admin'' ''changeme'' (entered '' :8089'' ''admin'' ''changeme'')"
  by (simp_all add: connect_def Let_def texts_entered py_strip_examples split_address_port_only)

lemma dialogs_create_splunkd_refused:
  "dialogs (fst (create_splunkd refused h p u pw w)) =
     dialogs w @ [Warning (''Unable to connect to host '' @ quote @ h @ '':'' @ py_str p @ quote
        @ '':'' @ nl @ ''refused'')]"
  by (simp add: create_splunkd_def Let_def refused_def called_def statusbar_msg_def
      warning_msg_def)

text \<open>
  C3. An address that is only a port, \<open>:8089\<close>, or a blank followed by a port, is not
  empty as a whole, and the host that the split of line 412 takes from the untrimmed text
  is never checked: no warning about the address or the port is shown, and the login is
  called with the empty host, or with the host of one blank that trimming empties.
\<close>

theorem connect_empty_host:
  "calls (fst (connect refused (entered '':8089'' ''admin'' ''changeme''))) =
     [Login [] 8089 ''admin'' ''changeme''] \<and>
   calls (fst (connect refused (entered '' :8089'' ''admin'' ''changeme''))) =
     [Login '' '' 8089 ''admin'' ''changeme''] \<and>
   py_strip '' '' = [] \<and>
   dialogs (fst (connect refused (entered '':8089'' ''admin'' ''changeme''))) =
     [Warning (''Unable to connect to host '' @ quote @ '':8089'' @ quote @ '':'' @ nl
        @ ''refused'')]"
  by (simp add: connect_port_only calls_create_splunkd calls_entered py_strip_examples
      dialogs_create_splunkd_refused dialogs_entered py_str_8089)

text \<open>
  C9. When the trimmed address holds no \<open>:\<close>, no port is parsed and no port warning is
  shown: with the three fields non-empty, \<open>connect\<close> goes straight to the login, with the
  trimmed address as host and 8089 as port.
\<close>

theorem connect_default_port:
  assumes "CHR '':'' \<notin> set (py_strip (texts (ui w) ''comboAddress''))"
  shows "(py_strip (texts (ui w) ''comboAddress'') \<noteq> [] \<and>
          py_strip (texts (ui w) ''editUsername'') \<noteq> [] \<and>
          py_strip (texts (ui w) ''editPassword'') \<noteq> [] \<longrightarrow>
          connect Splunkd w =
            create_splunkd Splunkd (py_strip (texts (ui w) ''comboAddress'')) 8089
              (py_strip (texts (ui w) ''editUsername''))
              (py_strip (texts (ui w) ''editPassword'')) w \<and>
          calls (fst (connect Splunkd w)) =
            calls w @ [Login (py_strip (texts (ui w) ''comboAddress'')) 8089
              (py_strip (texts (ui w) ''editUsername''))
              (py_strip (texts (ui w) ''editPassword''))]) \<and>
         dialogs (fst (connect Splunkd w)) \<noteq> dialogs w @ [Warning ''Invalid port specified'']"
  using assms
  by (auto simp: connect_def Let_def calls_create_splunkd dialogs_create_splunkd warning_msg_def)

theorem connect_default_port_witness:
  "CHR '':'' \<notin> set (py_strip '' splunk.example.com '') \<and>
   calls (fst (connect (\<lambda>h p u pw. Inl (SocketError ''refused''))
                 (entered '' splunk.example.com '' ''admin'' ''changeme''))) =
     [Login ''splunk.example.com'' 8089 ''admin'' ''changeme'']"
proof -
  have s: "py_strip '' splunk.example.com '' = ''splunk.example.com''"
      "py_strip ''admin'' = ''admin''" "py_strip ''changeme'' = ''changeme''"
    by (simp_all add: py_strip_def isspace_def)
  have h: "CHR '':'' \<notin> set (py_strip (texts (ui (entered '' splunk.example.com '' ''admin''
      ''changeme'')) ''comboAddress''))"
    by (simp add: texts_entered s)
  from connect_default_port [OF h, of "\<lambda>h p u pw. Inl (SocketError ''refused'')"]
  show ?thesis
    by (simp add: texts_entered s calls_entered calls_create_splunkd)
qed

subsection \<open>buttonRestSend_clicked\<close>

lemma parse_uri_example:
  "parse_uri ''/services/foo?a=1&b=2'' = Inr (''/services/foo'', [''a'' \<mapsto> ''1'', ''b'' \<mapsto> ''2''])"
  by (simp add: parse_uri_def)

lemma parse_uri_bad: "parse_uri ''/services/foo?bad'' = Inl ValueError"
  by (simp add: parse_uri_def)

lemma rest_send_parse_error:
  "splunkd w = Some sp \<Longrightarrow> parse_uri (texts (ui w) ''comboRestURI'') = Inl e \<Longrightarrow>
   buttonRestSend_clicked None rest_call w =
     (warning_msg ''Unable to parse parameters in URI, check formatting'' (called Settings w),
      Returns)"
  by (frule parse_uri_Inl) (simp add: buttonRestSend_clicked_def Let_def called_def)

lemma list_ex_filled:
  "list_ex (\<lambda>name. name \<in> dom parameters) filled_by_call \<longleftrightarrow>
     dom parameters \<inter> set filled_by_call \<noteq> {}"
  by (auto simp: list_ex_iff)

lemma rest_send_dispatch:
  "splunkd w = Some sp \<Longrightarrow> parse_uri (texts (ui w) ''comboRestURI'') = Inr (uri, parameters) \<Longrightarrow>
   dom parameters \<inter> set filled_by_call = {} \<Longrightarrow>
   calls (fst (buttonRestSend_clicked None rest_call w)) =
     calls w @ [Settings, RestCall uri (texts (ui w) ''comboRestMethod'') (Some ''plaintext'')
                  (texts (ui w) ''editRestBodyInput'') parameters]"
  by (simp add: buttonRestSend_clicked_def Let_def called_def list_ex_filled split: sum.splits)


text \<open>
  C4. On a connected window with a live session, the URI \<open>/services/foo?a=1&b=2\<close> is
  dispatched as a call of \<open>rest_call\<close> on the path \<open>/services/foo\<close> with the parameters
  \<open>a = 1\<close> and \<open>b = 2\<close>; the URI \<open>/services/foo?bad\<close> ends in the parse warning, and the
  only call made is the liveness probe that precedes the parsing.
\<close>

theorem rest_send_query_string:
  assumes "splunkd w = Some sp"
  shows "(texts (ui w) ''comboRestURI'' = ''/services/foo?a=1&b=2'' \<longrightarrow>
            calls (fst (buttonRestSend_clicked None rest_call w)) =
              calls w @ [Settings,
                RestCall ''/services/foo'' (texts (ui w) ''comboRestMethod'') (Some ''plaintext'')
                  (texts (ui w) ''editRestBodyInput'') [''a'' \<mapsto> ''1'', ''b'' \<mapsto> ''2'']]) \<and>
         (texts (ui w) ''comboRestURI'' = ''/services/foo?bad'' \<longrightarrow>
            buttonRestSend_clicked None rest_call w =
              (warning_msg ''Unable to parse parameters in URI, check formatting''
                 (called Settings w), Returns) \<and>
            calls (fst (buttonRestSend_clicked None rest_call w)) = calls w @ [Settings])"
proof (intro conjI impI)
  assume u: "texts (ui w) ''comboRestURI'' = ''/services/foo?a=1&b=2''"
  show "calls (fst (buttonRestSend_clicked None rest_call w)) =
              calls w @ [Settings,
                RestCall ''/services/foo'' (texts (ui w) ''comboRestMethod'') (Some ''plaintext'')
                  (texts (ui w) ''editRestBodyInput'') [''a'' \<mapsto> ''1'', ''b'' \<mapsto> ''2'']]"
    by (rule rest_send_dispatch [OF assms])
       (simp_all add: u parse_uri_example filled_by_call_def)
next
  assume u: "texts (ui w) ''comboRestURI'' = ''/services/foo?bad''"
  show r: "buttonRestSend_clicked None rest_call w =
              (warning_msg ''Unable to parse parameters in URI, check formatting''
                 (called Settings w), Returns)"
    by (rule rest_send_parse_error [OF assms]) (simp add: u parse_uri_bad)
  show "calls (fst (buttonRestSend_clicked None rest_call w)) = calls w @ [Settings]"
    by (simp add: r calls_warning_msg called_def)
qed

theorem rest_send_query_string_witness:
  "calls (fst (buttonRestSend_clicked None (\<lambda>uri method fmt body ps. Inr ''<entry/>'')
                 (rest_tab ''GET'' ''/services/foo?a=1&b=2'' []))) =
     [Settings, RestCall ''/services/foo'' ''GET'' (Some ''plaintext'') [] [''a'' \<mapsto> ''1'', ''b'' \<mapsto> ''2'']] \<and>
   calls (fst (buttonRestSend_clicked None (\<lambda>uri method fmt body ps. Inr ''<entry/>'')
                 (rest_tab ''GET'' ''/services/foo?bad'' []))) = [Settings]"
  using rest_send_query_string [of "rest_tab ''GET'' ''/services/foo?a=1&b=2'' []" example_splunkd
      "\<lambda>uri method fmt body ps. Inr ''<entry/>''"]
    rest_send_query_string [of "rest_tab ''GET'' ''/services/foo?bad'' []" example_splunkd
      "\<lambda>uri method fmt body ps. Inr ''<entry/>''"]
  by (simp add: rest_tab_simps calls_warning_msg called_def)






subsection \<open>poll\<close>

lemma poll_live: "snd (poll live connected) = Populates"
  by (simp add: poll_def splunkd_connected live_def sub_polls_def Let_def called_def
      statusbar_msg_def)

text \<open>
  C1. The probe succeeds, two sub-polls succeed and the third raises
  \<^verbatim>\<open>AuthenticationError\<close>: the exception leaves \<open>poll\<close>, no dialog is shown, and the
  window keeps its session, with the status bar at the message of the failed step.
\<close>

theorem poll_session_expires:
  "snd (poll session_expires connected) = Raises AuthenticationError \<and>
   splunkd (fst (poll session_expires connected)) = Some example_splunkd \<and>
   dialogs (fst (poll session_expires connected)) = [] \<and>
   ui (fst (poll session_expires connected)) =
     (ui connected)\<lparr>statusbar := ''Polling messages...''\<rparr>"
  by (simp add: poll_def splunkd_connected dialogs_connected session_expires_def live_def
      sub_polls_def Let_def called_def statusbar_msg_def)

text \<open>
  C2. The probe succeeds and the fifth sub-poll raises an exception that is neither an
  authentication nor a socket error: the exception leaves \<open>poll\<close>, no dialog is shown,
  and the window keeps its session.
\<close>

theorem poll_inputstatus_breaks:
  "snd (poll inputstatus_breaks connected) = Raises KeyError \<and>
   splunkd (fst (poll inputstatus_breaks connected)) = Some example_splunkd \<and>
   dialogs (fst (poll inputstatus_breaks connected)) = [] \<and>
   ui (fst (poll inputstatus_breaks connected)) =
     (ui connected)\<lparr>statusbar := ''Polling input status...''\<rparr>"
  by (simp add: poll_def splunkd_connected dialogs_connected inputstatus_breaks_def live_def
      sub_polls_def Let_def called_def statusbar_msg_def)

text \<open>
  What does hold. An exception of the probe, of whatever class, tears the session down and
  is reported. Whenever \<open>poll\<close> returns early, the session has been torn down. A socket
  error of a sub-poll is handled so; any other exception of a sub-poll leaves \<open>poll\<close>,
  with the session kept and no widget but the status bar changed.
\<close>

lemma poll_probe_refused:
  "splunkd w = Some sp \<Longrightarrow> service_settings env = Some AuthenticationError \<Longrightarrow>
   poll env w = (critical_msg ''Splunk connection reset'' (disconnect (called Settings w)), Returns)"
  by (simp add: poll_def Let_def)

lemma poll_probe_unknown:
  "splunkd w = Some sp \<Longrightarrow> service_settings env = Some e \<Longrightarrow> e \<noteq> AuthenticationError \<Longrightarrow>
   \<not> is_socket_error e \<Longrightarrow>
   poll env w =
     (critical_msg ''Unknown error while attempting to poll splunkd''
        (disconnect (called Settings w)), Returns)"
  by (simp add: poll_def Let_def)

lemma run_sub_polls_keeps_session:
  "splunkd w \<noteq> None \<Longrightarrow> splunkd (fst (run_sub_polls ps w)) \<noteq> None"
  by (induction ps w rule: run_sub_polls.induct)
     (auto simp: Let_def statusbar_msg_def called_def split: option.splits)

lemma poll_returns_torn_down:
  "snd (poll env w) = Returns \<Longrightarrow> splunkd (fst (poll env w)) = None"
  by (auto simp: poll_def Let_def critical_msg_def splunkd_disconnect statusbar_msg_def
      split: option.splits prod.splits if_splits)

lemma poll_socket_error:
  "splunkd w = Some sp \<Longrightarrow> service_settings env = None \<Longrightarrow>
   run_sub_polls (sub_polls env) (called Settings w) = (w1, Some e) \<Longrightarrow> is_socket_error e \<Longrightarrow>
   poll env w =
     (critical_msg (''Socket error while attempting to poll splunkd:'' @ nl @ exn_str e)
        (disconnect w1), Returns)"
  by (simp add: poll_def Let_def)

lemma poll_other_error:
  "splunkd w = Some sp \<Longrightarrow> service_settings env = None \<Longrightarrow>
   run_sub_polls (sub_polls env) (called Settings w) = (w1, Some e) \<Longrightarrow> \<not> is_socket_error e \<Longrightarrow>
   poll env w = (w1, Raises e)"
  by (simp add: poll_def Let_def)

lemma run_sub_polls_widgets:
  "\<exists>msg. ui (fst (run_sub_polls ps w)) = (ui w)\<lparr>statusbar := msg\<rparr> \<and>
         dialogs (fst (run_sub_polls ps w)) = dialogs w"
proof (induction ps w rule: run_sub_polls.induct)
  case (1 w)
  have "ui w = (ui w)\<lparr>statusbar := statusbar (ui w)\<rparr>" by simp
  then have "\<exists>msg. ui w = (ui w)\<lparr>statusbar := msg\<rparr>" by (rule exI)
  then show ?case by simp
next
  case (2 msg name step rest w)
  show ?case
  proof (cases "splunkd w")
    case None
    then show ?thesis
      by (auto simp: Let_def statusbar_msg_def)
  next
    case (Some sp)
    show ?thesis
    proof (cases "snd (step sp)")
      case None
      let ?w2 = "called (SubPoll name)
        ((statusbar_msg msg w)\<lparr>splunkd := Some (fst (step sp))\<rparr>)"
      from 2 [of "statusbar_msg msg w" sp ?w2] Some None
      obtain m where "ui (fst (run_sub_polls rest ?w2)) = (ui ?w2)\<lparr>statusbar := m\<rparr>"
        "dialogs (fst (run_sub_polls rest ?w2)) = dialogs ?w2"
        by (auto simp: statusbar_msg_def)
      with Some None show ?thesis
        by (auto simp: Let_def statusbar_msg_def called_def)
    next
      case (Some e)
      with \<open>splunkd w = Some sp\<close> show ?thesis
        by (auto simp: Let_def statusbar_msg_def called_def)
    qed
  qed
qed

lemma poll_raises:
  assumes "snd (poll env w) = Raises e"
  shows "splunkd (fst (poll env w)) \<noteq> None \<and> dialogs (fst (poll env w)) = dialogs w \<and>
         (\<exists>msg. ui (fst (poll env w)) = (ui w)\<lparr>statusbar := msg\<rparr>)"
proof (cases "splunkd w")
  case None
  with assms show ?thesis by (simp add: poll_def)
next
  case (Some sp)
  show ?thesis
  proof (cases "service_settings env")
    case (Some e')
    with \<open>splunkd w = Some sp\<close> assms show ?thesis
      by (simp add: poll_def Let_def split: if_splits)
  next
    case None
    obtain w1 r where r: "run_sub_polls (sub_polls env) (called Settings w) = (w1, r)"
      by (cases "run_sub_polls (sub_polls env) (called Settings w)")
    with None \<open>splunkd w = Some sp\<close> assms have p: "poll env w = (w1, Raises e)"
      by (auto simp: poll_def Let_def split: option.splits if_splits)
    from run_sub_polls_keeps_session [of "called Settings w" "sub_polls env"]
      \<open>splunkd w = Some sp\<close> r
    have "splunkd w1 \<noteq> None" by (simp add: called_def)
    moreover from run_sub_polls_widgets [of "sub_polls env" "called Settings w"] r
    have "dialogs w1 = dialogs w" "\<exists>msg. ui w1 = (ui w)\<lparr>statusbar := msg\<rparr>"
      by (auto simp: called_def)
    ultimately show ?thesis by (simp add: p)
  qed
qed

subsection \<open>Populating the widgets\<close>

text \<open>
  C5. With one raw listener record \<open>r\<close> and one cooked listener record \<open>c\<close>, two distinct
  dictionary objects, the list handed to \<^verbatim>\<open>table_builder\<close> is \<open>[r, c]\<close>: two entries, the
  first with \<^verbatim>\<open>tcptype\<close> \<open>Raw\<close>, the second with \<^verbatim>\<open>tcptype\<close> \<open>Cooked\<close>, and every other
  field of either as it was in the wrapper's record.
\<close>

theorem tcp_merge_two:
  assumes "rawtcp_status sp = [r]" and "cookedtcp_status sp = [c]" and "r \<noteq> c"
  shows "fst (tcpmonitors sp) = [r, c] \<and>
         length (fst (tcpmonitors sp)) = 2 \<and>
         map (snd (tcpmonitors sp)) (fst (tcpmonitors sp)) =
           [(objs sp r)(''tcptype'' \<mapsto> ''Raw''), (objs sp c)(''tcptype'' \<mapsto> ''Cooked'')] \<and>
         (\<forall>f. f \<noteq> ''tcptype'' \<longrightarrow>
            snd (tcpmonitors sp) r f = objs sp r f \<and> snd (tcpmonitors sp) c f = objs sp c f)"
  using assms by (simp add: tcpmonitors_def)

text \<open>Why the two records must be distinct objects: a shared one keeps the later tag.\<close>

lemma tcp_merge_shared:
  "rawtcp_status sp = [r] \<Longrightarrow> cookedtcp_status sp = [r] \<Longrightarrow>
   map (snd (tcpmonitors sp)) (fst (tcpmonitors sp)) =
     [(objs sp r)(''tcptype'' \<mapsto> ''Cooked''), (objs sp r)(''tcptype'' \<mapsto> ''Cooked'')]"
  by (simp add: tcpmonitors_def)

theorem tcp_merge_two_witness:
  "rawtcp_status example_splunkd = [0] \<and> cookedtcp_status example_splunkd = [1] \<and>
   fst (tcpmonitors example_splunkd) = [0, 1] \<and>
   map (snd (tcpmonitors example_splunkd)) (fst (tcpmonitors example_splunkd)) =
     [[''port'' \<mapsto> ''514'', ''source'' \<mapsto> ''10.0.0.5'', ''opened'' \<mapsto> ''09:00'',
       ''tcptype'' \<mapsto> ''Raw''],
      [''port'' \<mapsto> ''9997'', ''source'' \<mapsto> ''10.0.0.7'', ''opened'' \<mapsto> ''09:30'',
       ''tcptype'' \<mapsto> ''Cooked'']]"
proof -
  have r: "rawtcp_status example_splunkd = [0]" and c: "cookedtcp_status example_splunkd = [1]"
    by (simp_all add: example_splunkd_def)
  have n: "(0::nat) \<noteq> 1" by simp
  have o: "objs example_splunkd 0 =
      [''port'' \<mapsto> ''514'', ''source'' \<mapsto> ''10.0.0.5'', ''opened'' \<mapsto> ''09:00'']"
    "objs example_splunkd 1 =
      [''port'' \<mapsto> ''9997'', ''source'' \<mapsto> ''10.0.0.7'', ''opened'' \<mapsto> ''09:30'']"
    by (simp_all add: example_splunkd_def)
  from tcp_merge_two [OF r c n]
  have a: "fst (tcpmonitors example_splunkd) = [0, 1]"
    and b: "map (snd (tcpmonitors example_splunkd)) (fst (tcpmonitors example_splunkd)) =
      [(objs example_splunkd 0)(''tcptype'' \<mapsto> ''Raw''),
       (objs example_splunkd 1)(''tcptype'' \<mapsto> ''Cooked'')]"
    by blast+
  from r c a b [unfolded o] show ?thesis by blast
qed

lemma tcp_table_example:
  "tcp_table example_splunkd =
     Inr [[''Raw'', ''514'', ''10.0.0.5'', ''09:00''],
          [''Cooked'', ''9997'', ''10.0.0.7'', ''09:30'']]"
  by (simp add: tcp_table_def tcpmonitors_def example_splunkd_def)

text \<open>
  C6. On a cluster master the two peer labels show the wrapper's searchable count and
  the number of peers minus that count, so the two displayed counts add up to the number
  of peers: whatever integers the two labels render, their sum is the number of peers.
  Likewise for the indexes.
\<close>

theorem cluster_counts_complement:
  assumes "''cluster_master'' \<in> set (roles sp)"
  shows "texts (cluster_labels sp u) ''labelClusterPeersSearchable'' =
           py_str (cluster_peers_searchable sp) @ '' searchable'' \<and>
         texts (cluster_labels sp u) ''labelClusterPeersNotSearchable'' =
           py_str (peers_unsearchable sp) @ '' not searchable'' \<and>
         cluster_peers_searchable sp + peers_unsearchable sp = int (length (cluster_peers sp)) \<and>
         texts (cluster_labels sp u) ''labelClusterIndexesSearchable'' =
           py_str (cluster_indexes_searchable sp) @ '' searchable'' \<and>
         texts (cluster_labels sp u) ''labelClusterIndexesNotSearchable'' =
           py_str (indexes_unsearchable sp) @ '' not searchable'' \<and>
         cluster_indexes_searchable sp + indexes_unsearchable sp =
           int (length (cluster_indexes sp)) \<and>
         (\<forall>a b. texts (cluster_labels sp u) ''labelClusterPeersSearchable'' =
                   py_str a @ '' searchable'' \<and>
                texts (cluster_labels sp u) ''labelClusterPeersNotSearchable'' =
                   py_str b @ '' not searchable'' \<longrightarrow>
                a + b = int (length (cluster_peers sp))) \<and>
         (\<forall>a b. texts (cluster_labels sp u) ''labelClusterIndexesSearchable'' =
                   py_str a @ '' searchable'' \<and>
                texts (cluster_labels sp u) ''labelClusterIndexesNotSearchable'' =
                   py_str b @ '' not searchable'' \<longrightarrow>
                a + b = int (length (cluster_indexes sp)))"
proof -
  have l: "texts (cluster_labels sp u) ''labelClusterPeersSearchable'' =
           py_str (cluster_peers_searchable sp) @ '' searchable''"
    "texts (cluster_labels sp u) ''labelClusterPeersNotSearchable'' =
           py_str (peers_unsearchable sp) @ '' not searchable''"
    "texts (cluster_labels sp u) ''labelClusterIndexesSearchable'' =
           py_str (cluster_indexes_searchable sp) @ '' searchable''"
    "texts (cluster_labels sp u) ''labelClusterIndexesNotSearchable'' =
           py_str (indexes_unsearchable sp) @ '' not searchable''"
    using assms by (simp_all add: cluster_labels_def upds_apply)
  have s: "cluster_peers_searchable sp + peers_unsearchable sp = int (length (cluster_peers sp))"
    "cluster_indexes_searchable sp + indexes_unsearchable sp = int (length (cluster_indexes sp))"
    by (simp_all add: peers_unsearchable_def indexes_unsearchable_def)
  from l s show ?thesis
    by (auto dest!: py_str_inj)
qed

theorem cluster_counts_complement_witness:
  "''cluster_master'' \<in> set (roles example_splunkd) \<and>
   texts (cluster_labels example_splunkd blank_widgets) ''labelClusterPeersSearchable'' =
     ''2 searchable'' \<and>
   texts (cluster_labels example_splunkd blank_widgets) ''labelClusterPeersNotSearchable'' =
     ''1 not searchable'' \<and>
   texts (cluster_labels example_splunkd blank_widgets) ''labelClusterIndexesSearchable'' =
     ''2 searchable'' \<and>
   texts (cluster_labels example_splunkd blank_widgets) ''labelClusterIndexesNotSearchable'' =
     ''0 not searchable'' \<and>
   (2::int) + 1 = int (length (cluster_peers example_splunkd)) \<and>
   (2::int) + 0 = int (length (cluster_indexes example_splunkd))"
proof -
  have m: "''cluster_master'' \<in> set (roles example_splunkd)"
    by (simp add: example_splunkd_def)
  have v: "cluster_peers_searchable example_splunkd = 2" "peers_unsearchable example_splunkd = 1"
    "cluster_indexes_searchable example_splunkd = 2" "indexes_unsearchable example_splunkd = 0"
    by (simp_all add: example_splunkd_def peers_unsearchable_def indexes_unsearchable_def)
  have s: "py_str 0 = ''0''" "py_str 1 = ''1''" "py_str 2 = ''2''"
    by (simp_all add: py_str_def digits10.simps digit_char_def)
  note t = cluster_counts_complement [OF m, of blank_widgets, unfolded v]
  from t have l:
    "texts (cluster_labels example_splunkd blank_widgets) ''labelClusterPeersSearchable'' =
       py_str 2 @ '' searchable''"
    "texts (cluster_labels example_splunkd blank_widgets) ''labelClusterPeersNotSearchable'' =
       py_str 1 @ '' not searchable''"
    "texts (cluster_labels example_splunkd blank_widgets) ''labelClusterIndexesSearchable'' =
       py_str 2 @ '' searchable''"
    "texts (cluster_labels example_splunkd blank_widgets) ''labelClusterIndexesNotSearchable'' =
       py_str 0 @ '' not searchable''"
    by blast+
  from t have
    p: "\<forall>a b. texts (cluster_labels example_splunkd blank_widgets) ''labelClusterPeersSearchable'' =
                   py_str a @ '' searchable'' \<and>
                texts (cluster_labels example_splunkd blank_widgets)
                   ''labelClusterPeersNotSearchable'' = py_str b @ '' not searchable'' \<longrightarrow>
                a + b = int (length (cluster_peers example_splunkd))"
    and i: "\<forall>a b. texts (cluster_labels example_splunkd blank_widgets)
                   ''labelClusterIndexesSearchable'' = py_str a @ '' searchable'' \<and>
                texts (cluster_labels example_splunkd blank_widgets)
                   ''labelClusterIndexesNotSearchable'' = py_str b @ '' not searchable'' \<longrightarrow>
                a + b = int (length (cluster_indexes example_splunkd))"
    by blast+
  from p [rule_format, of 2 1] l
  have "(2::int) + 1 = int (length (cluster_peers example_splunkd))" by blast
  moreover from i [rule_format, of 2 0] l
  have "(2::int) + 0 = int (length (cluster_indexes example_splunkd))" by blast
  moreover from l have
    "texts (cluster_labels example_splunkd blank_widgets) ''labelClusterPeersSearchable'' =
       ''2 searchable''"
    "texts (cluster_labels example_splunkd blank_widgets) ''labelClusterPeersNotSearchable'' =
       ''1 not searchable''"
    "texts (cluster_labels example_splunkd blank_widgets) ''labelClusterIndexesSearchable'' =
       ''2 searchable''"
    "texts (cluster_labels example_splunkd blank_widgets) ''labelClusterIndexesNotSearchable'' =
       ''0 not searchable''"
    by (simp_all add: s)
  ultimately show ?thesis using m by blast
qed

subsection \<open>actionChangeDeploymentServer_clicked\<close>

lemma splunkd_called [simp]: "splunkd (called c w) = splunkd w"
  by (simp add: called_def)

lemma splunkd_critical_msg [simp]: "splunkd (critical_msg m w) = splunkd w"
  by (simp add: critical_msg_def)

lemma calls_critical_msg [simp]: "calls (critical_msg m w) = calls w"
  by (simp add: critical_msg_def)

lemma calls_called [simp]: "calls (called c w) = calls w @ [c]"
  by (simp add: called_def)

lemma dialogs_called [simp]: "dialogs (called c w) = dialogs w"
  by (simp add: called_def)

lemma dialogs_critical_msg [simp]: "dialogs (critical_msg m w) = dialogs w @ [Critical m]"
  by (simp add: critical_msg_def)

lemma disable_refused:
  assumes "post env target_broker ''POST'' ''disabled=1&targetUri='' = Inr (Some msg)"
    and "msg ''type'' = Some t" and "msg ''$text'' = Some m"
    and "t \<noteq> ''INFO'' \<or> py_in ''modified 0 key'' m"
  shows "calls (change_and_restart env ''1'' [] w) =
           calls w @ [RestCall target_broker ''POST'' None ''disabled=1&targetUri='' Map.empty]"
    and "splunkd (change_and_restart env ''1'' [] w) = splunkd w"
    and "\<exists>report. dialogs (change_and_restart env ''1'' [] w) = dialogs w @ [Critical report]"
  using assms by (auto simp: change_and_restart_def Let_def)

lemma disable_accepted:
  assumes "post env target_broker ''POST'' ''disabled=1&targetUri='' = Inr (Some msg)"
    and "msg ''type'' = Some ''INFO''" and "msg ''$text'' = Some m"
    and "\<not> py_in ''modified 0 key'' m"
  shows "calls (change_and_restart env ''1'' [] w) =
           calls w @ [RestCall target_broker ''POST'' None ''disabled=1&targetUri='' Map.empty,
                      Restart]"
    and "restart env = None \<Longrightarrow> splunkd (change_and_restart env ''1'' [] w) = None"
    and "restart env = None \<Longrightarrow>
           \<exists>w'. change_and_restart env ''1'' [] w =
              statusbar_msg
                ''Disconnected while splunkd is restarting, try reconnecting in a few moments''
                (disconnect w')"
    and "restart env \<noteq> None \<Longrightarrow> splunkd (change_and_restart env ''1'' [] w) = splunkd w"
    and "restart env \<noteq> None \<Longrightarrow>
           dialogs (change_and_restart env ''1'' [] w) =
             dialogs w @ [Critical ''Error while attempting to restart splunkd'']"
  using assms
  by (auto simp: change_and_restart_def Let_def calls_disconnect calls_statusbar_msg
      splunkd_disconnect statusbar_msg_def split: option.splits)

lemma disable_post_raises:
  assumes "post env target_broker ''POST'' ''disabled=1&targetUri='' = Inl e"
  shows "calls (change_and_restart env ''1'' [] w) =
           calls w @ [RestCall target_broker ''POST'' None ''disabled=1&targetUri='' Map.empty]"
    and "splunkd (change_and_restart env ''1'' [] w) = splunkd w"
    and "dialogs (change_and_restart env ''1'' [] w) =
           dialogs w @ [Critical ''Error while attempting to restart splunkd'']"
  using assms by (auto simp: change_and_restart_def Let_def)

lemma disable_always_posts:
  "RestCall target_broker ''POST'' None ''disabled=1&targetUri='' Map.empty
     \<in> set (calls (change_and_restart env ''1'' [] w))"
  by (auto simp: change_and_restart_def Let_def calls_disconnect calls_statusbar_msg
      split: sum.splits option.splits)

lemma no_target_slot:
  assumes "splunkd w = Some sp" and "probe env = None" and "getText env = ([], True)"
    and "answer env"
  shows "actionChangeDeploymentServer_clicked env w =
           (change_and_restart env ''1'' []
              ((called Settings w)
                 \<lparr>dialogs := dialogs w @ [Question (confirm_message [] (host sp))]\<rparr>),
            Returns)"
  using assms by (simp add: actionChangeDeploymentServer_clicked_def Let_def called_def)

text \<open>
  C7, as amended. With a live session, an empty input confirmed with OK and the question
  answered yes, the slot POSTs \<open>disabled=1&targetUri=\<close>. When the answer carries a message
  whose type is not \<open>INFO\<close> or whose text contains \<open>modified 0 key\<close>, the failure is
  reported, no restart is requested and the session stays. When the type is \<open>INFO\<close> and
  the text does not contain \<open>modified 0 key\<close>, the restart is requested at once; the
  session is torn down by \<open>disconnect\<close> when the restart request returns, and is kept,
  with an error reported, when the request raises.
\<close>

theorem change_deployment_no_target:
  assumes "splunkd w = Some sp" and "probe env = None" and "getText env = ([], True)"
    and "answer env"
  shows
    "snd (actionChangeDeploymentServer_clicked env w) = Returns \<and>
     RestCall target_broker ''POST'' None ''disabled=1&targetUri='' Map.empty
       \<in> set (calls (fst (actionChangeDeploymentServer_clicked env w))) \<and>
     (\<forall>msg t m.
        post env target_broker ''POST'' ''disabled=1&targetUri='' = Inr (Some msg) \<and>
        msg ''type'' = Some t \<and> msg ''$text'' = Some m \<longrightarrow>
        (t \<noteq> ''INFO'' \<or> py_in ''modified 0 key'' m \<longrightarrow>
           calls (fst (actionChangeDeploymentServer_clicked env w)) =
             calls w @ [Settings,
               RestCall target_broker ''POST'' None ''disabled=1&targetUri='' Map.empty] \<and>
           splunkd (fst (actionChangeDeploymentServer_clicked env w)) = Some sp \<and>
           (\<exists>report. dialogs (fst (actionChangeDeploymentServer_clicked env w)) =
              dialogs w @ [Question (confirm_message [] (host sp)), Critical report])) \<and>
        (t = ''INFO'' \<and> \<not> py_in ''modified 0 key'' m \<longrightarrow>
           calls (fst (actionChangeDeploymentServer_clicked env w)) =
             calls w @ [Settings,
               RestCall target_broker ''POST'' None ''disabled=1&targetUri='' Map.empty,
               Restart] \<and>
           (restart env = None \<longrightarrow>
              splunkd (fst (actionChangeDeploymentServer_clicked env w)) = None \<and>
              (\<exists>w'. fst (actionChangeDeploymentServer_clicked env w) =
                 statusbar_msg
                   ''Disconnected while splunkd is restarting, try reconnecting in a few moments''
                   (disconnect w'))) \<and>
           (restart env \<noteq> None \<longrightarrow>
              splunkd (fst (actionChangeDeploymentServer_clicked env w)) = Some sp \<and>
              dialogs (fst (actionChangeDeploymentServer_clicked env w)) =
                 dialogs w @ [Question (confirm_message [] (host sp)),
                   Critical ''Error while attempting to restart splunkd''])))"
proof -
  let ?w1 = "(called Settings w)
      \<lparr>dialogs := dialogs w @ [Question (confirm_message [] (host sp))]\<rparr>"
  note s = no_target_slot [OF assms]
  have w1: "calls ?w1 = calls w @ [Settings]" "splunkd ?w1 = Some sp"
    "dialogs ?w1 = dialogs w @ [Question (confirm_message [] (host sp))]"
    using assms(1) by (simp_all add: called_def)
  show ?thesis
  proof (intro conjI allI impI)
    show "snd (actionChangeDeploymentServer_clicked env w) = Returns"
      by (simp add: s)
  next
    show "RestCall target_broker ''POST'' None ''disabled=1&targetUri='' Map.empty
       \<in> set (calls (fst (actionChangeDeploymentServer_clicked env w)))"
      by (simp add: s disable_always_posts)
  next
    fix msg t m
    assume p: "post env target_broker ''POST'' ''disabled=1&targetUri='' = Inr (Some msg) \<and>
        msg ''type'' = Some t \<and> msg ''$text'' = Some m"
      and r: "t \<noteq> ''INFO'' \<or> py_in ''modified 0 key'' m"
    from p have p1: "post env target_broker ''POST'' ''disabled=1&targetUri='' = Inr (Some msg)"
      and p2: "msg ''type'' = Some t" and p3: "msg ''$text'' = Some m"
      by simp_all
    note c = disable_refused [OF p1 p2 p3 r, of ?w1]
    from c(1) show "calls (fst (actionChangeDeploymentServer_clicked env w)) =
             calls w @ [Settings,
               RestCall target_broker ''POST'' None ''disabled=1&targetUri='' Map.empty]"
      by (simp add: s w1)
    from c(2) show "splunkd (fst (actionChangeDeploymentServer_clicked env w)) = Some sp"
      by (simp add: s w1)
    from c(3) show "\<exists>report. dialogs (fst (actionChangeDeploymentServer_clicked env w)) =
              dialogs w @ [Question (confirm_message [] (host sp)), Critical report]"
      by (simp add: s w1)
  next
    fix msg t m
    assume p: "post env target_broker ''POST'' ''disabled=1&targetUri='' = Inr (Some msg) \<and>
        msg ''type'' = Some t \<and> msg ''$text'' = Some m"
      and r: "t = ''INFO'' \<and> \<not> py_in ''modified 0 key'' m"
    from p r have p1: "post env target_broker ''POST'' ''disabled=1&targetUri='' = Inr (Some msg)"
      and p2: "msg ''type'' = Some ''INFO''" and p3: "msg ''$text'' = Some m"
      and p4: "\<not> py_in ''modified 0 key'' m"
      by simp_all
    note c = disable_accepted [OF p1 p2 p3 p4, of ?w1]
    from c(1) show "calls (fst (actionChangeDeploymentServer_clicked env w)) =
             calls w @ [Settings,
               RestCall target_broker ''POST'' None ''disabled=1&targetUri='' Map.empty,
               Restart]"
      by (simp add: s w1)
    {
      assume n: "restart env = None"
      from c(2) [OF n] show "splunkd (fst (actionChangeDeploymentServer_clicked env w)) = None"
        by (simp add: s)
      from c(3) [OF n] show "\<exists>w'. fst (actionChangeDeploymentServer_clicked env w) =
                 statusbar_msg
                   ''Disconnected while splunkd is restarting, try reconnecting in a few moments''
                   (disconnect w')"
        unfolding s fst_conv .
    }
    {
      assume n: "restart env \<noteq> None"
      from c(4) [OF n] show "splunkd (fst (actionChangeDeploymentServer_clicked env w)) = Some sp"
        by (simp add: s w1)
      from c(5) [OF n] show "dialogs (fst (actionChangeDeploymentServer_clicked env w)) =
                 dialogs w @ [Question (confirm_message [] (host sp)),
                   Critical ''Error while attempting to restart splunkd'']"
        by (simp add: s w1)
    }
  qed
qed

theorem change_deployment_no_target_witness:
  "calls (fst (actionChangeDeploymentServer_clicked
                 (disable_client ''INFO'' ''Successfully modified 1 key.'' None) connected)) =
     [Settings, RestCall target_broker ''POST'' None ''disabled=1&targetUri='' Map.empty,
      Restart] \<and>
   splunkd (fst (actionChangeDeploymentServer_clicked
                 (disable_client ''INFO'' ''Successfully modified 1 key.'' None) connected)) = None \<and>
   calls (fst (actionChangeDeploymentServer_clicked
                 (disable_client ''INFO'' ''Successfully modified 0 keys.'' None) connected)) =
     [Settings, RestCall target_broker ''POST'' None ''disabled=1&targetUri='' Map.empty] \<and>
   splunkd (fst (actionChangeDeploymentServer_clicked
                 (disable_client ''INFO'' ''Successfully modified 0 keys.'' None) connected)) =
     Some example_splunkd \<and>
   calls (fst (actionChangeDeploymentServer_clicked
                 (disable_client ''ERROR'' ''Insufficient permission'' None) connected)) =
     [Settings, RestCall target_broker ''POST'' None ''disabled=1&targetUri='' Map.empty] \<and>
   splunkd (fst (actionChangeDeploymentServer_clicked
                 (disable_client ''INFO'' ''Successfully modified 1 key.''
                    (Some (SocketError ''timed out''))) connected)) =
     Some example_splunkd"
proof -
  have e: "probe (disable_client t m r) = None" "getText (disable_client t m r) = ([], True)"
    "answer (disable_client t m r)" "restart (disable_client t m r) = r"
    "post (disable_client t m r) target_broker ''POST'' ''disabled=1&targetUri='' =
       Inr (Some [''type'' \<mapsto> t, ''$text'' \<mapsto> m])" for t m r
    by (simp_all add: disable_client_def)
  have k: "\<not> py_in ''modified 0 key'' ''Successfully modified 1 key.''"
    "py_in ''modified 0 key'' ''Successfully modified 0 keys.''"
    by simp_all
  note t = change_deployment_no_target [OF splunkd_connected e(1) e(2) e(3), THEN conjunct2,
      THEN conjunct2, rule_format]
  have m: "[''type'' \<mapsto> t, ''$text'' \<mapsto> m] ''type'' = Some t"
    "[''type'' \<mapsto> t, ''$text'' \<mapsto> m] ''$text'' = Some m" for t m :: string
    by simp_all
  from t [of "''INFO''" "''Successfully modified 1 key.''" None, OF conjI [OF e(5) conjI [OF m]],
      THEN conjunct2] k(1)
  have a: "calls (fst (actionChangeDeploymentServer_clicked
                 (disable_client ''INFO'' ''Successfully modified 1 key.'' None) connected)) =
     [Settings, RestCall target_broker ''POST'' None ''disabled=1&targetUri='' Map.empty,
      Restart]"
    "splunkd (fst (actionChangeDeploymentServer_clicked
                 (disable_client ''INFO'' ''Successfully modified 1 key.'' None) connected)) = None"
    by (simp_all add: e calls_connected)
  from t [of "''INFO''" "''Successfully modified 0 keys.''" None, OF conjI [OF e(5) conjI [OF m]],
      THEN conjunct1] k(2)
  have b: "calls (fst (actionChangeDeploymentServer_clicked
                 (disable_client ''INFO'' ''Successfully modified 0 keys.'' None) connected)) =
     [Settings, RestCall target_broker ''POST'' None ''disabled=1&targetUri='' Map.empty]"
    "splunkd (fst (actionChangeDeploymentServer_clicked
                 (disable_client ''INFO'' ''Successfully modified 0 keys.'' None) connected)) =
     Some example_splunkd"
    by (simp_all add: calls_connected)
  from t [of "''ERROR''" "''Insufficient permission''" None, OF conjI [OF e(5) conjI [OF m]],
      THEN conjunct1]
  have c: "calls (fst (actionChangeDeploymentServer_clicked
                 (disable_client ''ERROR'' ''Insufficient permission'' None) connected)) =
     [Settings, RestCall target_broker ''POST'' None ''disabled=1&targetUri='' Map.empty]"
    by (simp add: calls_connected)
  from t [of "''INFO''" "''Successfully modified 1 key.''" "Some (SocketError ''timed out'')",
      OF conjI [OF e(5) conjI [OF m]], THEN conjunct2] k(1)
  have d: "splunkd (fst (actionChangeDeploymentServer_clicked
                 (disable_client ''INFO'' ''Successfully modified 1 key.''
                    (Some (SocketError ''timed out''))) connected)) =
     Some example_splunkd"
    by (simp add: e)
  from a b c d show ?thesis by blast
qed

text \<open>
  C7 as stated fails: no failure is detected in the answer, the restart is requested and
  raises a socket error; the error is reported and the session is not torn down.
\<close>

theorem change_deployment_restart_raises:
  "splunkd (fst (actionChangeDeploymentServer_clicked
                   (disable_client ''INFO'' ''Successfully modified 1 key.''
                      (Some (SocketError ''timed out''))) connected)) =
     Some example_splunkd \<and>
   last (calls (fst (actionChangeDeploymentServer_clicked
                   (disable_client ''INFO'' ''Successfully modified 1 key.''
                      (Some (SocketError ''timed out''))) connected))) = Restart \<and>
   last (dialogs (fst (actionChangeDeploymentServer_clicked
                   (disable_client ''INFO'' ''Successfully modified 1 key.''
                      (Some (SocketError ''timed out''))) connected))) =
     Critical ''Error while attempting to restart splunkd''"
  by (simp add: actionChangeDeploymentServer_clicked_def change_and_restart_def Let_def
      disable_client_def splunkd_connected)

end
